theory Spec2Isabelle
  imports Main "HOL-Library.AList"
begin

section \<open>JSON values and the Python operations the server applies to them\<close>

text \<open>
  A frame decoded by \<open>receive_json\<close> is a JSON value. \<open>JNull\<close> is Python's \<open>None\<close>,
  a JSON object is a Python dict, kept as an association list in insertion order.
  Floating point numbers are not part of the model.
\<close>

datatype json =
    JNull
  | JBool bool
  | JInt int
  | JStr string
  | JArr "json list"
  | JObj "(string \<times> json) list"

text \<open>Python truthiness, as used by \<open>x or y\<close> and \<open>if x:\<close>.\<close>

fun truthy :: "json \<Rightarrow> bool" where
  "truthy JNull = False"
| "truthy (JBool b) = b"
| "truthy (JInt n) = (n \<noteq> 0)"
| "truthy (JStr s) = (s \<noteq> [])"
| "truthy (JArr xs) = (xs \<noteq> [])"
| "truthy (JObj kvs) = (kvs \<noteq> [])"

definition py_or :: "json \<Rightarrow> json \<Rightarrow> json" where
  "py_or a b = (if truthy a then a else b)"

text \<open>\<open>d.get(k, default)\<close> and \<open>d.get(k)\<close> (default \<open>None\<close>), \<open>k in d\<close>.\<close>

definition dict_get_default :: "(string \<times> json) list \<Rightarrow> string \<Rightarrow> json \<Rightarrow> json" where
  "dict_get_default d k dflt = (case map_of d k of None \<Rightarrow> dflt | Some v \<Rightarrow> v)"

definition dict_get :: "(string \<times> json) list \<Rightarrow> string \<Rightarrow> json" where
  "dict_get d k = dict_get_default d k JNull"

definition has_key :: "('k \<times> 'v) list \<Rightarrow> 'k \<Rightarrow> bool" where
  "has_key d k = (map_of d k \<noteq> None)"

text \<open>
  The result of a Python expression that may raise. \<open>NotModelled\<close> marks the inputs on
  which the model does not follow Python: \<open>int(s)\<close> for a string \<open>s\<close> (whitespace,
  signs, underscores, digit limits) and a room identifier that is not a string.
\<close>

datatype 'a py = Ok 'a | Raises | NotModelled

text \<open>\<open>int(v)\<close> for a value that is not \<open>None\<close>.\<close>

fun py_int :: "json \<Rightarrow> int py" where
  "py_int (JInt n) = Ok n"
| "py_int (JBool b) = Ok (if b then 1 else 0)"
| "py_int (JStr s) = NotModelled"
| "py_int JNull = Raises"
| "py_int (JArr xs) = Raises"
| "py_int (JObj kvs) = Raises"

text \<open>\<open>str(n)\<close> for an integer, as an f-string formats it.\<close>

definition digit_char :: "nat \<Rightarrow> char" where
  "digit_char d = char_of (48 + d)"

fun str_nat :: "nat \<Rightarrow> string" where
  "str_nat n = (if n < 10 then [digit_char n] else str_nat (n div 10) @ [digit_char (n mod 10)])"

declare str_nat.simps [simp del]

definition str_int :: "int \<Rightarrow> string" where
  "str_int i = (if i < 0 then CHR ''-'' # str_nat (nat (- i)) else str_nat (nat i))"

section \<open>ConnectionManager\<close>

type_synonym websocket = nat

record manager =
  active_connections :: "(int \<times> websocket) list"
  client_names :: "(int \<times> json) list"
  client_rooms :: "(int \<times> string) list"
  client_ips :: "(int \<times> string) list"
  client_counter :: int
  max_peers_per_room :: int

definition init_manager :: "int \<Rightarrow> manager" where
  "init_manager max_peers =
     \<lparr>active_connections = [], client_names = [], client_rooms = [], client_ips = [],
      client_counter = 0, max_peers_per_room = max_peers\<rparr>"

definition disconnect :: "manager \<Rightarrow> int \<Rightarrow> manager" where
  "disconnect m cid =
     (if has_key (active_connections m) cid then
        m\<lparr>active_connections := AList.delete cid (active_connections m),
          client_names := AList.delete cid (client_names m),
          client_rooms := AList.delete cid (client_rooms m),
          client_ips := AList.delete cid (client_ips m)\<rparr>
      else m)"

definition register_client :: "manager \<Rightarrow> int \<Rightarrow> string \<Rightarrow> websocket \<Rightarrow> string \<Rightarrow> json \<Rightarrow> manager" where
  "register_client m cid room ws ip_address peer_name =
     (let m1 = m\<lparr>active_connections := AList.update cid ws (active_connections m),
                  client_ips := AList.update cid ip_address (client_ips m),
                  client_rooms := AList.update cid room (client_rooms m)\<rparr>
      in if truthy peer_name
         then m1\<lparr>client_names := AList.update cid peer_name (client_names m1)\<rparr>
         else m1)"

definition get_peers_in_room :: "manager \<Rightarrow> string \<Rightarrow> int list" where
  "get_peers_in_room m room = map fst (filter (\<lambda>(cid, rid). rid = room) (client_rooms m))"

definition overflow_name :: "string \<Rightarrow> nat \<Rightarrow> string" where
  "overflow_name requested_room overflow_index = requested_room @ ''_'' @ str_nat overflow_index"

definition has_space :: "manager \<Rightarrow> string \<Rightarrow> bool" where
  "has_space m room = (int (length (get_peers_in_room m room)) < max_peers_per_room m)"

partial_function (option) probe_overflow :: "manager \<Rightarrow> string \<Rightarrow> nat \<Rightarrow> (string \<times> bool) option" where
  "probe_overflow m requested_room overflow_index =
     (if has_space m (overflow_name requested_room overflow_index)
      then Some (overflow_name requested_room overflow_index, True)
      else probe_overflow m requested_room (overflow_index + 1))"

declare probe_overflow.simps [code]

definition find_available_room :: "manager \<Rightarrow> string \<Rightarrow> (string \<times> bool) option" where
  "find_available_room m requested_room =
     (if has_space m requested_room then Some (requested_room, False)
      else probe_overflow m requested_room 1)"

section \<open>Sending\<close>

text \<open>
  Whether \<open>send_json\<close> on a connection raises is decided by the transport. A handler step
  takes it as an oracle \<open>fails\<close> on connection handles, fixed for the duration of the step.
  An effect records one call of \<open>send_json\<close>: the client whose connection was written,
  the message, and whether the call returned (\<open>Sent\<close>) or raised (\<open>SendError\<close>).
  Each handler step runs as one atomic piece; the interleaving of coroutines at
  \<open>await\<close> is not modelled.
\<close>

datatype effect = Sent int json | SendError int json

fun recipient :: "effect \<Rightarrow> int" where
  "recipient (Sent cid message) = cid"
| "recipient (SendError cid message) = cid"

fun payload :: "effect \<Rightarrow> json" where
  "payload (Sent cid message) = message"
| "payload (SendError cid message) = message"

text \<open>The effects that record a send that raised.\<close>

fun send_failed :: "effect \<Rightarrow> bool" where
  "send_failed (SendError cid message) = True"
| "send_failed (Sent cid message) = False"

definition send_json :: "(websocket \<Rightarrow> bool) \<Rightarrow> websocket \<Rightarrow> int \<Rightarrow> json \<Rightarrow> effect" where
  "send_json fails ws cid message = (if fails ws then SendError cid message else Sent cid message)"

text \<open>\<open>send_personal_message\<close> swallows the exception of a failed send.\<close>

definition send_personal_message ::
  "manager \<Rightarrow> (websocket \<Rightarrow> bool) \<Rightarrow> json \<Rightarrow> int \<Rightarrow> effect list" where
  "send_personal_message m fails message cid =
     (case map_of (active_connections m) cid of
        None \<Rightarrow> []
      | Some ws \<Rightarrow> [send_json fails ws cid message])"

text \<open>
  The first loop of \<open>broadcast\<close>: the sends in dictionary order and the list
  \<open>disconnected_clients\<close> of the recipients whose send raised.
\<close>

fun broadcast_loop ::
  "manager \<Rightarrow> (websocket \<Rightarrow> bool) \<Rightarrow> json \<Rightarrow> int option \<Rightarrow> string option \<Rightarrow>
   (int \<times> websocket) list \<Rightarrow> effect list \<times> int list" where
  "broadcast_loop m fails message exclude_client_id room [] = ([], [])"
| "broadcast_loop m fails message exclude_client_id room ((cid, connection) # rest) =
     (let (effs, disconnected_clients) = broadcast_loop m fails message exclude_client_id room rest
      in if Some cid \<noteq> exclude_client_id then
           if room = None \<or> map_of (client_rooms m) cid = room then
             if fails connection
             then (SendError cid message # effs, cid # disconnected_clients)
             else (Sent cid message # effs, disconnected_clients)
           else (effs, disconnected_clients)
         else (effs, disconnected_clients))"

definition broadcast ::
  "manager \<Rightarrow> (websocket \<Rightarrow> bool) \<Rightarrow> json \<Rightarrow> int option \<Rightarrow> string option \<Rightarrow>
   manager \<times> effect list" where
  "broadcast m fails message exclude_client_id room =
     (let (effs, disconnected_clients) =
            broadcast_loop m fails message exclude_client_id room (active_connections m)
      in (foldl disconnect m disconnected_clients, effs))"

section \<open>Messages built by the server\<close>

definition welcome_message :: "int \<Rightarrow> int \<Rightarrow> int \<Rightarrow> string \<Rightarrow> json" where
  "welcome_message cid total_clients peers_count room =
     JObj [(''type'', JStr ''welcome''), (''clientId'', JInt cid), (''totalClients'', JInt total_clients),
           (''peersInRoom'', JInt peers_count), (''roomId'', JStr room)]"

definition room_redirect_message :: "string \<Rightarrow> int \<Rightarrow> string \<Rightarrow> json" where
  "room_redirect_message requested_room max_peers room =
     JObj [(''type'', JStr ''room-redirect''),
           (''message'', JStr (''Room '' @ [CHR 0x27] @ requested_room @ [CHR 0x27] @ '' is full (max ''
              @ str_int max_peers @ '' peers). You have been placed in overflow room ''
              @ [CHR 0x27] @ room @ [CHR 0x27] @ ''.'')),
           (''originalRoom'', JStr requested_room), (''assignedRoom'', JStr room)]"

definition peer_connected_message :: "int \<Rightarrow> json \<Rightarrow> int \<Rightarrow> int \<Rightarrow> json" where
  "peer_connected_message cid peer_name total_clients peers =
     JObj [(''type'', JStr ''peer-connected''), (''clientId'', JInt cid), (''peerName'', peer_name),
           (''totalClients'', JInt total_clients), (''peersInRoom'', JInt peers)]"

definition peer_disconnected_message :: "int \<Rightarrow> int \<Rightarrow> int \<Rightarrow> json" where
  "peer_disconnected_message cid total_clients peers =
     JObj [(''type'', JStr ''peer-disconnected''), (''clientId'', JInt cid),
           (''totalClients'', JInt total_clients), (''peersInRoom'', JInt peers)]"

text \<open>The dictionary \<open>data\<close> with the entry \<open>senderId\<close> set to the sender.\<close>

definition with_sender :: "(string \<times> json) list \<Rightarrow> int \<Rightarrow> json" where
  "with_sender data cid = JObj (AList.update ''senderId'' (JInt cid) data)"

definition chat_message :: "(string \<times> json) list \<Rightarrow> int \<Rightarrow> json" where
  "chat_message data cid =
     JObj [(''type'', JStr ''chat''), (''text'', dict_get_default data ''text'' (JStr [])),
           (''senderId'', JInt cid),
           (''senderName'', dict_get_default data ''senderName'' (JStr (''Client '' @ str_int cid))),
           (''timestamp'', dict_get data ''timestamp'')]"

definition mute_state_message :: "(string \<times> json) list \<Rightarrow> int \<Rightarrow> json" where
  "mute_state_message data cid =
     JObj [(''type'', JStr ''mute-state''), (''senderId'', JInt cid),
           (''isMuted'', dict_get_default data ''isMuted'' (JBool False))]"

definition peer_list_message :: "int list \<Rightarrow> json" where
  "peer_list_message peer_list = JObj [(''type'', JStr ''peer-list''), (''peers'', JArr (map JInt peer_list))]"

definition signaling_types :: "json list" where
  "signaling_types = [JStr ''offer'', JStr ''answer'', JStr ''ice-candidate'']"

section \<open>The websocket endpoint\<close>

text \<open>
  What \<open>receive_json\<close> yields: a decoded frame, an exception other than
  \<open>WebSocketDisconnect\<close> (the text was not JSON), or \<open>WebSocketDisconnect\<close>.
  The two \<open>except\<close> clauses of the endpoint run the same statements.
\<close>

datatype received = Frame json | BadFrame | Disconnected

text \<open>The local variables of a handler once the client is registered.\<close>

record session =
  sess_client_id :: int
  sess_room_id :: string
  sess_websocket :: websocket

text \<open>
  The result of one handler step: the handler goes on to wait for the next frame
  (\<open>Active\<close>), or it has returned (\<open>Closed\<close>); \<open>Unmodelled\<close> when the step
  met a \<open>NotModelled\<close> expression.
\<close>

datatype outcome =
    Active session manager "effect list"
  | Closed manager "effect list"
  | Unmodelled

fun outcome_manager :: "outcome \<Rightarrow> manager option" where
  "outcome_manager (Active s m effs) = Some m"
| "outcome_manager (Closed m effs) = Some m"
| "outcome_manager Unmodelled = None"

fun outcome_effects :: "outcome \<Rightarrow> effect list" where
  "outcome_effects (Active s m effs) = effs"
| "outcome_effects (Closed m effs) = effs"
| "outcome_effects Unmodelled = []"

text \<open>The body shared by the two \<open>except\<close> clauses, for a registered client.\<close>

definition cleanup :: "manager \<Rightarrow> (websocket \<Rightarrow> bool) \<Rightarrow> session \<Rightarrow> manager \<times> effect list" where
  "cleanup m fails s =
     (if sess_client_id s \<noteq> 0 then
        (let m1 = disconnect m (sess_client_id s) in
         if sess_room_id s \<noteq> [] then
           broadcast m1 fails
             (peer_disconnected_message (sess_client_id s)
                (int (length (active_connections m1)))
                (int (length (get_peers_in_room m1 (sess_room_id s)))))
             (Some (sess_client_id s)) (Some (sess_room_id s))
         else (m1, []))
      else (m, []))"

definition close :: "manager \<Rightarrow> (websocket \<Rightarrow> bool) \<Rightarrow> session \<Rightarrow> effect list \<Rightarrow> outcome" where
  "close m fails s effs = (let (m', effs') = cleanup m fails s in Closed m' (effs @ effs'))"

text \<open>
  Lines 226 to 231: the room is chosen, the counter is incremented and the client is
  registered, with no \<open>await\<close> in between. \<open>None\<close> when the probe loop does not return.
\<close>

definition admit ::
  "manager \<Rightarrow> websocket \<Rightarrow> string \<Rightarrow> json \<Rightarrow> string \<Rightarrow> (manager \<times> session \<times> bool) option" where
  "admit m ws client_ip peer_name requested_room =
     (case find_available_room m requested_room of
        None \<Rightarrow> None
      | Some (room, was_redirected) \<Rightarrow>
          (let m1 = m\<lparr>client_counter := client_counter m + 1\<rparr>;
               cid = client_counter m1;
               m2 = register_client m1 cid room ws client_ip peer_name
           in Some (m2, \<lparr>sess_client_id = cid, sess_room_id = room, sess_websocket = ws\<rparr>,
                    was_redirected)))"

text \<open>Lines 267 to 281: the first message, when it is a signaling message.\<close>

definition route_first_message ::
  "manager \<Rightarrow> (websocket \<Rightarrow> bool) \<Rightarrow> session \<Rightarrow> (string \<times> json) list \<Rightarrow> effect list py" where
  "route_first_message m fails s first_data =
     (let message_type = dict_get_default first_data ''type'' (JStr ''unknown'') in
      if message_type \<in> set signaling_types then
        (let target_id = dict_get first_data ''targetId'' in
         if target_id \<noteq> JNull then
           (case py_int target_id of
              Raises \<Rightarrow> Raises
            | NotModelled \<Rightarrow> NotModelled
            | Ok tid \<Rightarrow>
                if map_of (client_rooms m) tid = Some (sess_room_id s) then
                  if has_key (active_connections m) tid
                  then Ok (send_personal_message m fails
                             (with_sender first_data (sess_client_id s)) tid)
                  else Ok []
                else Ok [])
         else Ok [])
      else Ok [])"

text \<open>
  Lines 232 to 281, after the registration. The welcome and the redirect notice go to the
  same connection, so under one oracle the notice is sent when the welcome was.
\<close>

definition join_handshake ::
  "manager \<Rightarrow> (websocket \<Rightarrow> bool) \<Rightarrow> session \<Rightarrow> json \<Rightarrow> string \<Rightarrow> bool \<Rightarrow>
   (string \<times> json) list \<Rightarrow> outcome" where
  "join_handshake m fails s peer_name requested_room was_redirected first_data =
     (let cid = sess_client_id s;
          room = sess_room_id s;
          peers_in_room = get_peers_in_room m room;
          peers_count = int (length peers_in_room) - 1;
          welcome = welcome_message cid (int (length (active_connections m))) peers_count room
      in if fails (sess_websocket s) then close m fails s [SendError cid welcome]
         else
           (let effs1 = Sent cid welcome #
                  (if was_redirected
                   then [Sent cid (room_redirect_message requested_room (max_peers_per_room m) room)]
                   else []);
                (m3, effs2) = broadcast m fails
                  (peer_connected_message cid peer_name (int (length (active_connections m)))
                     (int (length peers_in_room)))
                  (Some cid) (Some room)
            in case route_first_message m3 fails s first_data of
                 Raises \<Rightarrow> close m3 fails s (effs1 @ effs2)
               | NotModelled \<Rightarrow> Unmodelled
               | Ok effs3 \<Rightarrow> Active s m3 (effs1 @ effs2 @ effs3)))"

text \<open>
  The handler up to the message loop. A first frame that is not an object raises at
  \<open>first_data.get\<close> while \<open>client_id\<close> is still \<open>None\<close>: nothing is cleaned up.
  Room identifiers are strings in this model: a \<open>roomId\<close> that is truthy and not a
  string is \<open>Unmodelled\<close>.
\<close>

definition websocket_endpoint_join ::
  "manager \<Rightarrow> (websocket \<Rightarrow> bool) \<Rightarrow> websocket \<Rightarrow> string \<Rightarrow> received \<Rightarrow> outcome option" where
  "websocket_endpoint_join m fails ws client_ip rcv =
     (case rcv of
        Frame (JObj first_data) \<Rightarrow>
          (let peer_name = py_or (dict_get first_data ''peerName'') (dict_get first_data ''name'');
               requested = py_or (dict_get first_data ''roomId'') (JStr ''default'')
           in case requested of
                JStr requested_room \<Rightarrow>
                  (case admit m ws client_ip peer_name requested_room of
                     None \<Rightarrow> None
                   | Some (m2, s, was_redirected) \<Rightarrow>
                       Some (join_handshake m2 fails s peer_name requested_room was_redirected first_data))
              | _ \<Rightarrow> Some Unmodelled)
      | _ \<Rightarrow> Some (Closed m []))"

text \<open>Lines 289 to 291.\<close>

definition update_peer_name :: "manager \<Rightarrow> session \<Rightarrow> (string \<times> json) list \<Rightarrow> manager" where
  "update_peer_name m s data =
     (if has_key data ''peerName'' \<and> sess_client_id s \<noteq> 0
      then m\<lparr>client_names := AList.update (sess_client_id s) (dict_get data ''peerName'') (client_names m)\<rparr>
      else m)"

text \<open>Lines 297 to 301: \<open>None\<close> stays \<open>None\<close>, anything else goes through \<open>int\<close>.\<close>

definition coerce_target :: "json \<Rightarrow> int option py" where
  "coerce_target target_id =
     (if target_id \<noteq> JNull then
        (case py_int target_id of Ok tid \<Rightarrow> Ok (Some tid) | Raises \<Rightarrow> Raises | NotModelled \<Rightarrow> NotModelled)
      else Ok None)"

text \<open>Lines 296 to 366: the dispatch on the message type.\<close>

definition dispatch ::
  "manager \<Rightarrow> (websocket \<Rightarrow> bool) \<Rightarrow> session \<Rightarrow> (string \<times> json) list \<Rightarrow> outcome" where
  "dispatch m fails s data =
     (let message_type = dict_get_default data ''type'' (JStr ''unknown'');
          cid = sess_client_id s;
          room = sess_room_id s
      in if message_type \<in> set signaling_types then
           (case coerce_target (dict_get data ''targetId'') of
              Raises \<Rightarrow> close m fails s []
            | NotModelled \<Rightarrow> Unmodelled
            | Ok target_id \<Rightarrow>
                if (case target_id of None \<Rightarrow> False | Some tid \<Rightarrow> tid \<noteq> 0) then
                  (let tid = the target_id in
                   if map_of (client_rooms m) tid = Some room then
                     if has_key (active_connections m) tid
                     then Active s m (send_personal_message m fails (with_sender data cid) tid)
                     else Active s m []
                   else Active s m [])
                else
                  (let (m', effs) = broadcast m fails (with_sender data cid) (Some cid) (Some room)
                   in Active s m' effs))
         else if message_type = JStr ''chat'' then
           (let (m', effs) = broadcast m fails (chat_message data cid) (Some cid) (Some room)
            in Active s m' effs)
         else if message_type = JStr ''mute-state'' then
           (let (m', effs) = broadcast m fails (mute_state_message data cid) (Some cid) (Some room)
            in Active s m' effs)
         else if message_type = JStr ''screen-share-stopped'' then
           (let target_id = dict_get data ''targetId'' in
            if target_id \<noteq> JNull then
              (case py_int target_id of
                 Raises \<Rightarrow> close m fails s []
               | NotModelled \<Rightarrow> Unmodelled
               | Ok tid \<Rightarrow>
                   if map_of (client_rooms m) tid = Some room then
                     if has_key (active_connections m) tid
                     then Active s m (send_personal_message m fails (with_sender data cid) tid)
                     else Active s m []
                   else Active s m [])
            else Active s m [])
         else if message_type = JStr ''get-peers'' then
           (let peer_list = filter (\<lambda>c. c \<noteq> cid) (get_peers_in_room m room);
                reply = peer_list_message peer_list
            in if fails (sess_websocket s) then close m fails s [SendError cid reply]
               else Active s m [Sent cid reply])
         else Active s m [])"

text \<open>
  One iteration of the message loop, lines 284 to 366, with the \<open>except\<close> clauses:
  a frame that is not an object raises at \<open>data.get\<close>.
\<close>

definition handle_message ::
  "manager \<Rightarrow> (websocket \<Rightarrow> bool) \<Rightarrow> session \<Rightarrow> received \<Rightarrow> outcome" where
  "handle_message m fails s rcv =
     (case rcv of
        Frame (JObj data) \<Rightarrow> dispatch (update_peer_name m s data) fails s data
      | _ \<Rightarrow> close m fails s [])"

section \<open>The server as a transition system\<close>

text \<open>
  \<open>evolves m m'\<close>: the registry \<open>m'\<close> is reached from \<open>m\<close> by handler steps of any
  connections: handshakes and loop iterations (which include the closing of a session).
\<close>

inductive evolves :: "manager \<Rightarrow> manager \<Rightarrow> bool" where
  evolves_refl: "evolves m m"
| evolves_join:
    "evolves m m1 \<Longrightarrow> websocket_endpoint_join m1 fails ws client_ip rcv = Some out \<Longrightarrow>
     outcome_manager out = Some m2 \<Longrightarrow> evolves m m2"
| evolves_message:
    "evolves m m1 \<Longrightarrow> outcome_manager (handle_message m1 fails s rcv) = Some m2 \<Longrightarrow>
     evolves m m2"

section \<open>Auxiliary notions of the proofs\<close>

text \<open>The value of a decimal numeral, the inverse of \<open>str_nat\<close>.\<close>

definition nat_of_digits :: "string \<Rightarrow> nat" where
  "nat_of_digits s = foldl (\<lambda>a c. 10 * a + (of_char c - 48)) 0 s"

text \<open>The registries the handlers produce: the dictionaries agree on their keys.\<close>

definition wf_manager :: "manager \<Rightarrow> bool" where
  "wf_manager m \<longleftrightarrow>
     distinct (map fst (active_connections m)) \<and>
     distinct (map fst (client_rooms m)) \<and>
     fst ` set (client_rooms m) = fst ` set (active_connections m) \<and>
     (\<forall>cid \<in> fst ` set (active_connections m). 1 \<le> cid \<and> cid \<le> client_counter m) \<and>
     0 \<le> client_counter m"

text \<open>The recipients of a broadcast: the two tests of the loop body.\<close>

definition is_target :: "manager \<Rightarrow> int option \<Rightarrow> string option \<Rightarrow> int \<times> websocket \<Rightarrow> bool" where
  "is_target m exclude_client_id room p \<longleftrightarrow>
     Some (fst p) \<noteq> exclude_client_id \<and> (room = None \<or> map_of (client_rooms m) (fst p) = room)"

text \<open>\<open>shrinks m m'\<close>: the registry \<open>m'\<close> is \<open>m\<close> after some calls of \<open>disconnect\<close>.\<close>

definition shrinks :: "manager \<Rightarrow> manager \<Rightarrow> bool" where
  "shrinks m m' \<longleftrightarrow> (\<exists>cs. m' = foldl disconnect m cs)"

text \<open>The transport on which no send raises.\<close>

definition all_delivered :: "websocket \<Rightarrow> bool" where
  "all_delivered ws = False"

text \<open>The transport on which the sends to one connection raise and all others succeed.\<close>

definition only_fails :: "websocket \<Rightarrow> websocket \<Rightarrow> bool" where
  "only_fails bad ws = (ws = bad)"

text \<open>The message types that have a branch in the dispatch of the loop.\<close>

definition known_types :: "json list" where
  "known_types = signaling_types @
     [JStr ''chat'', JStr ''mute-state'', JStr ''screen-share-stopped'', JStr ''get-peers'']"

text \<open>The frames on which \<open>data.get\<close> does not raise: JSON objects.\<close>

fun is_object :: "json \<Rightarrow> bool" where
  "is_object (JObj d) = True"
| "is_object v = False"

section \<open>Decimal numerals are injective\<close>

lemma digit_char_value: "d < 10 \<Longrightarrow> (of_char (digit_char d) :: nat) - 48 = d"
  by (simp add: digit_char_def)

lemma nat_of_digits_str_nat: "nat_of_digits (str_nat n) = n"
proof (induction n rule: str_nat.induct)
  case (1 n)
  show ?case
  proof (cases "n < 10")
    case True
    then show ?thesis
      by (simp add: str_nat.simps [of n] nat_of_digits_def digit_char_value)
  next
    case False
    with "1" have "nat_of_digits (str_nat (n div 10)) = n div 10"
      by simp
    moreover have "n mod 10 < 10" by simp
    ultimately show ?thesis
      using False
      by (simp add: str_nat.simps [of n] nat_of_digits_def digit_char_value)
  qed
qed

lemma str_nat_inj: "str_nat a = str_nat b \<Longrightarrow> a = b"
  by (metis nat_of_digits_str_nat)

lemma overflow_name_inj: "inj (overflow_name r)"
  by (auto simp: inj_on_def overflow_name_def dest: str_nat_inj)

section \<open>Room allocation\<close>

lemma probe_overflow_reaches:
  "i \<le> n \<Longrightarrow> has_space m (overflow_name r n) \<Longrightarrow>
   (\<forall>k. i \<le> k \<and> k < n \<longrightarrow> \<not> has_space m (overflow_name r k)) \<Longrightarrow>
   probe_overflow m r i = Some (overflow_name r n, True)"
proof (induction "n - i" arbitrary: i)
  case 0
  then have "i = n" by simp
  with "0.prems" show ?case
    by (simp add: probe_overflow.simps [of m r n])
next
  case (Suc d)
  then have lt: "i < n" by simp
  with Suc.prems have full: "\<not> has_space m (overflow_name r i)" by simp
  have "probe_overflow m r (i + 1) = Some (overflow_name r n, True)"
    using Suc.hyps(1) [of "i + 1"] Suc.hyps(2) Suc.prems lt by simp
  with full show ?case
    by (simp add: probe_overflow.simps [of m r i])
qed

lemma probe_overflow_result:
  assumes "probe_overflow m r i = Some res"
  shows "\<exists>n\<ge>i. res = (overflow_name r n, True) \<and> has_space m (overflow_name r n) \<and>
     (\<forall>k. i \<le> k \<and> k < n \<longrightarrow> \<not> has_space m (overflow_name r k))"
proof (rule probe_overflow.raw_induct [where P = "\<lambda>m r i res. \<exists>n\<ge>i. res = (overflow_name r n, True) \<and> has_space m (overflow_name r n) \<and>
     (\<forall>k. i \<le> k \<and> k < n \<longrightarrow> \<not> has_space m (overflow_name r k))", OF _ assms], goal_cases)
  case (1 probe m r i res)
  show ?case
  proof (cases "has_space m (overflow_name r i)")
    case True
    with "1"(2) have "res = (overflow_name r i, True)" by simp
    with True show ?thesis by auto
  next
    case False
    with "1"(2) have "probe m r (i + 1) = Some res" by simp
    from "1"(1) [OF this] obtain n where n: "i + 1 \<le> n" "res = (overflow_name r n, True)"
      "has_space m (overflow_name r n)"
      "\<forall>k. i + 1 \<le> k \<and> k < n \<longrightarrow> \<not> has_space m (overflow_name r k)"
      by blast
    have "\<forall>k. i \<le> k \<and> k < n \<longrightarrow> \<not> has_space m (overflow_name r k)"
    proof (intro allI impI)
      fix k assume "i \<le> k \<and> k < n"
      then show "\<not> has_space m (overflow_name r k)"
        using False n(4) by (cases "k = i") auto
    qed
    with n show ?thesis
      by (intro exI [of _ n]) auto
  qed
qed

lemma find_available_room_result:
  assumes "find_available_room m r = Some (room, red)"
  shows "if has_space m r then room = r \<and> \<not> red
         else red \<and> (\<exists>n\<ge>1. room = overflow_name r n \<and> has_space m (overflow_name r n) \<and>
                (\<forall>k. 1 \<le> k \<and> k < n \<longrightarrow> \<not> has_space m (overflow_name r k)))"
proof (cases "has_space m r")
  case True
  with assms show ?thesis by (simp add: find_available_room_def)
next
  case False
  with assms have "probe_overflow m r 1 = Some (room, red)"
    by (simp add: find_available_room_def)
  from probe_overflow_result [OF this] False show ?thesis by auto
qed

lemma find_available_room_has_space:
  "find_available_room m r = Some (room, red) \<Longrightarrow> has_space m room"
  using find_available_room_result [of m r room red] by (auto split: if_splits)

lemma free_overflow_exists: "\<exists>n\<ge>1. get_peers_in_room m (overflow_name r n) = []"
proof -
  have "infinite (overflow_name r ` {1..})"
    using overflow_name_inj [of r]
    by (metis finite_imageD infinite_Ici inj_on_subset subset_UNIV)
  moreover have "finite (snd ` set (client_rooms m))" by simp
  ultimately obtain x where x: "x \<in> overflow_name r ` {1..}" "x \<notin> snd ` set (client_rooms m)"
    by (meson finite_subset subsetI)
  then obtain n where "n \<ge> 1" "x = overflow_name r n" by auto
  moreover from x(2) have "get_peers_in_room m x = []"
    by (force simp: get_peers_in_room_def filter_empty_conv)
  ultimately show ?thesis by blast
qed

lemma find_available_room_total:
  assumes "1 \<le> max_peers_per_room m"
  shows "\<exists>room red. find_available_room m r = Some (room, red)"
proof (cases "has_space m r")
  case True
  then have "find_available_room m r = Some (r, False)"
    by (simp add: find_available_room_def)
  then show ?thesis by blast
next
  case False
  obtain n0 where n0: "n0 \<ge> 1" "get_peers_in_room m (overflow_name r n0) = []"
    using free_overflow_exists by blast
  with assms have sp: "has_space m (overflow_name r n0)"
    by (simp add: has_space_def)
  define n where "n = (LEAST k. 1 \<le> k \<and> has_space m (overflow_name r k))"
  have P: "1 \<le> n \<and> has_space m (overflow_name r n)"
    unfolding n_def by (rule LeastI [of _ n0]) (use n0 sp in simp)
  have "\<forall>k. 1 \<le> k \<and> k < n \<longrightarrow> \<not> has_space m (overflow_name r k)"
    unfolding n_def using not_less_Least by blast
  with P have "probe_overflow m r 1 = Some (overflow_name r n, True)"
    by (intro probe_overflow_reaches) auto
  with False have "find_available_room m r = Some (overflow_name r n, True)"
    by (simp add: find_available_room_def)
  then show ?thesis by blast
qed

text \<open>
  Claim C2. \<open>find_available_room\<close> returns the requested room, not redirected, when its
  occupancy is below \<open>max_peers_per_room\<close>, and only then; when the requested room is full
  and \<open>n \<ge> 1\<close> is the smallest index whose overflow room has space, it returns that
  overflow room, redirected; and whatever it returns has one of these two forms, so an index
  \<open>n\<close> is used only when the requested room and the overflow rooms \<open>1..n-1\<close> are full.
\<close>

theorem find_available_room_spec:
  "(has_space m r \<longrightarrow> find_available_room m r = Some (r, False)) \<and>
   (\<not> has_space m r \<and> 1 \<le> n \<and> has_space m (overflow_name r n) \<and>
      (\<forall>k. 1 \<le> k \<and> k < n \<longrightarrow> \<not> has_space m (overflow_name r k))
      \<longrightarrow> find_available_room m r = Some (overflow_name r n, True)) \<and>
   (find_available_room m r = Some (room, red) \<longrightarrow>
      (if has_space m r then room = r \<and> \<not> red
       else red \<and> (\<exists>j\<ge>1. room = overflow_name r j \<and> has_space m (overflow_name r j) \<and>
              (\<forall>k. 1 \<le> k \<and> k < j \<longrightarrow> \<not> has_space m (overflow_name r k)))))"
proof (intro conjI impI)
  assume "has_space m r"
  then show "find_available_room m r = Some (r, False)"
    by (simp add: find_available_room_def)
next
  assume a: "\<not> has_space m r \<and> 1 \<le> n \<and> has_space m (overflow_name r n) \<and>
      (\<forall>k. 1 \<le> k \<and> k < n \<longrightarrow> \<not> has_space m (overflow_name r k))"
  then have "probe_overflow m r 1 = Some (overflow_name r n, True)"
    by (intro probe_overflow_reaches) auto
  with a show "find_available_room m r = Some (overflow_name r n, True)"
    by (simp add: find_available_room_def)
next
  assume "find_available_room m r = Some (room, red)"
  then show "if has_space m r then room = r \<and> \<not> red
       else red \<and> (\<exists>j\<ge>1. room = overflow_name r j \<and> has_space m (overflow_name r j) \<and>
              (\<forall>k. 1 \<le> k \<and> k < j \<longrightarrow> \<not> has_space m (overflow_name r k)))"
    by (rule find_available_room_result)
qed

theorem find_available_room_spec_witness:
  "has_space (init_manager 1) ''r'' \<and>
   find_available_room (init_manager 1) ''r'' = Some (''r'', False) \<and>
   \<not> has_space (register_client (init_manager 1) 1 ''r'' 5 ''ip'' JNull) ''r'' \<and>
   has_space (register_client (init_manager 1) 1 ''r'' 5 ''ip'' JNull) (overflow_name ''r'' 1) \<and>
   find_available_room (register_client (init_manager 1) 1 ''r'' 5 ''ip'' JNull) ''r''
     = Some (''r_1'', True)"
proof -
  let ?M = "register_client (init_manager 1) 1 ''r'' 5 ''ip'' JNull"
  have h1: "has_space (init_manager 1) ''r''" by code_simp
  have h2: "\<not> has_space ?M ''r''" by code_simp
  have h3: "has_space ?M (overflow_name ''r'' 1)" by code_simp
  have h4: "overflow_name ''r'' 1 = ''r_1''" by code_simp
  have "find_available_room (init_manager 1) ''r'' = Some (''r'', False)"
    using find_available_room_spec [of "init_manager 1" "''r''" 1 "''r''" False] h1 by blast
  moreover have "find_available_room ?M ''r'' = Some (overflow_name ''r'' 1, True)"
    using find_available_room_spec [of ?M "''r''" 1 "''r''" False] h2 h3 by auto
  ultimately show ?thesis using h1 h2 h3 h4 by simp
qed

text \<open>
  Claim C10. With a capacity of at least one, \<open>find_available_room\<close> returns for every
  registry and every requested room: the registry holds finitely many clients and the
  overflow names are pairwise different, so some overflow room is empty and the probe
  loop stops at the latest there.
\<close>

theorem find_available_room_terminates:
  "1 \<le> max_peers_per_room m \<Longrightarrow>
   (\<exists>n\<ge>1. get_peers_in_room m (overflow_name r n) = []) \<and>
   (\<exists>room red. find_available_room m r = Some (room, red))"
  using free_overflow_exists [of m r] find_available_room_total [of m r] by blast

theorem find_available_room_terminates_witness:
  "1 \<le> max_peers_per_room (register_client (init_manager 1) 1 ''r'' 5 ''ip'' JNull) \<and>
   (\<exists>room red. find_available_room (register_client (init_manager 1) 1 ''r'' 5 ''ip'' JNull) ''r''
      = Some (room, red))"
proof -
  let ?M = "register_client (init_manager 1) 1 ''r'' 5 ''ip'' JNull"
  have h: "1 \<le> max_peers_per_room ?M" by code_simp
  from find_available_room_terminates [OF h, of "''r''"] h show ?thesis by blast
qed

section \<open>Disconnecting\<close>

lemma has_key_delete [simp]: "has_key (AList.delete k xs) k' \<longleftrightarrow> k' \<noteq> k \<and> has_key xs k'"
  by (auto simp: has_key_def delete_conv)

lemma has_key_iff: "has_key xs k \<longleftrightarrow> k \<in> fst ` set xs"
  by (simp add: has_key_def map_of_eq_None_iff)

text \<open>
  Claim C7. \<open>disconnect\<close> of a client that is not connected leaves the whole registry as
  it is, and a second \<open>disconnect\<close> of the same client changes nothing more.
\<close>

theorem disconnect_idempotent:
  "(\<not> has_key (active_connections m) cid \<longrightarrow> disconnect m cid = m) \<and>
   disconnect (disconnect m cid) cid = disconnect m cid"
  by (simp add: disconnect_def)

theorem disconnect_idempotent_witness:
  "\<not> has_key (active_connections (register_client (init_manager 2) 1 ''lobby'' 7 ''ip'' (JStr ''A''))) 2 \<and>
   disconnect (register_client (init_manager 2) 1 ''lobby'' 7 ''ip'' (JStr ''A'')) 2
     = register_client (init_manager 2) 1 ''lobby'' 7 ''ip'' (JStr ''A'')"
proof -
  let ?M = "register_client (init_manager 2) 1 ''lobby'' 7 ''ip'' (JStr ''A'')"
  have h: "\<not> has_key (active_connections ?M) 2" by code_simp
  with disconnect_idempotent [of ?M 2] show ?thesis by blast
qed

section \<open>Broadcast\<close>

lemma broadcast_loop_effects:
  "fst (broadcast_loop m fails message ex room conns) =
     map (\<lambda>p. send_json fails (snd p) (fst p) message) (filter (is_target m ex room) conns)"
  by (induction conns) (auto simp: is_target_def send_json_def split: prod.splits)

lemma broadcast_loop_disconnected:
  "snd (broadcast_loop m fails message ex room conns) =
     map fst (filter (\<lambda>p. is_target m ex room p \<and> fails (snd p)) conns)"
  by (induction conns) (auto simp: is_target_def split: prod.splits)

lemma broadcast_eq:
  "broadcast m fails message ex room =
     (foldl disconnect m (map fst (filter (\<lambda>p. is_target m ex room p \<and> fails (snd p)) (active_connections m))),
      map (\<lambda>p. send_json fails (snd p) (fst p) message) (filter (is_target m ex room) (active_connections m)))"
  using broadcast_loop_effects [of m fails message ex room "active_connections m"]
    broadcast_loop_disconnected [of m fails message ex room "active_connections m"]
  by (cases "broadcast_loop m fails message ex room (active_connections m)")
     (simp add: broadcast_def)

lemma disconnect_fields [simp]:
  "client_counter (disconnect m c) = client_counter m"
  "max_peers_per_room (disconnect m c) = max_peers_per_room m"
  by (simp_all add: disconnect_def)

lemma foldl_disconnect_induct:
  "P m \<Longrightarrow> (\<And>m c. P m \<Longrightarrow> P (disconnect m c)) \<Longrightarrow> P (foldl disconnect m cs)"
  by (induction cs arbitrary: m) auto

lemma delete_filter: "AList.delete k xs = filter (\<lambda>p. fst p \<noteq> k) xs"
  by (induction xs) auto

lemma disconnect_active:
  "active_connections (disconnect m c) = filter (\<lambda>p. fst p \<noteq> c) (active_connections m)"
proof (cases "has_key (active_connections m) c")
  case True
  then show ?thesis by (simp add: disconnect_def delete_filter)
next
  case False
  then have "filter (\<lambda>p. fst p \<noteq> c) (active_connections m) = active_connections m"
    by (subst filter_id_conv) (auto simp: has_key_iff)
  with False show ?thesis by (simp add: disconnect_def)
qed

lemma disconnect_rooms:
  "client_rooms (disconnect m c) =
     (if has_key (active_connections m) c then filter (\<lambda>p. fst p \<noteq> c) (client_rooms m) else client_rooms m)"
  by (auto simp: disconnect_def delete_filter)

lemma foldl_disconnect_active:
  "active_connections (foldl disconnect m cs) = filter (\<lambda>p. fst p \<notin> set cs) (active_connections m)"
  by (induction cs arbitrary: m) (auto simp: disconnect_active intro: filter_cong)

lemma foldl_disconnect_rooms:
  "client_rooms (foldl disconnect m cs) =
     filter (\<lambda>p. \<not> (fst p \<in> set cs \<and> has_key (active_connections m) (fst p))) (client_rooms m)"
proof (induction cs arbitrary: m)
  case Nil
  then show ?case by simp
next
  case (Cons c cs)
  show ?case
  proof (cases "has_key (active_connections m) c")
    case True
    have "has_key (active_connections (disconnect m c)) k \<longleftrightarrow> k \<noteq> c \<and> has_key (active_connections m) k" for k
      by (auto simp: disconnect_active has_key_iff)
    with True show ?thesis
      by (auto simp: Cons.IH disconnect_rooms intro!: filter_cong)
  next
    case False
    then have "disconnect m c = m" by (simp add: disconnect_def)
    with False show ?thesis
      by (auto simp: Cons.IH intro!: filter_cong)
  qed
qed


lemma map_of_filter_key:
  "map_of (filter (\<lambda>p. P (fst p)) xs) c = (if P c then map_of xs c else None)"
  by (induction xs) auto

lemma foldl_disconnect_active_lookup:
  "map_of (active_connections (foldl disconnect m cs)) c =
     (if c \<in> set cs then None else map_of (active_connections m) c)"
  using map_of_filter_key [of "\<lambda>k. k \<notin> set cs" "active_connections m" c]
  by (simp add: foldl_disconnect_active)

lemma foldl_disconnect_rooms_lookup:
  "map_of (client_rooms (foldl disconnect m cs)) c =
     (if c \<in> set cs \<and> has_key (active_connections m) c then None else map_of (client_rooms m) c)"
  using map_of_filter_key [of "\<lambda>k. \<not> (k \<in> set cs \<and> has_key (active_connections m) k)" "client_rooms m" c]
  by (simp add: foldl_disconnect_rooms)

lemma disconnect_names:
  "client_names (disconnect m c) =
     (if has_key (active_connections m) c then filter (\<lambda>p. fst p \<noteq> c) (client_names m) else client_names m)"
  by (auto simp: disconnect_def delete_filter)

lemma disconnect_ips:
  "client_ips (disconnect m c) =
     (if has_key (active_connections m) c then filter (\<lambda>p. fst p \<noteq> c) (client_ips m) else client_ips m)"
  by (auto simp: disconnect_def delete_filter)

lemma foldl_disconnect_field:
  fixes g :: "manager \<Rightarrow> (int \<times> 'a) list"
  assumes g: "\<And>m c. g (disconnect m c) =
     (if has_key (active_connections m) c then filter (\<lambda>p. fst p \<noteq> c) (g m) else g m)"
  shows "g (foldl disconnect m cs) =
     filter (\<lambda>p. \<not> (fst p \<in> set cs \<and> has_key (active_connections m) (fst p))) (g m)"
proof (induction cs arbitrary: m)
  case Nil
  then show ?case by simp
next
  case (Cons c cs)
  show ?case
  proof (cases "has_key (active_connections m) c")
    case True
    have "has_key (active_connections (disconnect m c)) k \<longleftrightarrow> k \<noteq> c \<and> has_key (active_connections m) k" for k
      by (auto simp: disconnect_active has_key_iff)
    with True show ?thesis
      by (auto simp: Cons.IH g intro!: filter_cong)
  next
    case False
    then have "disconnect m c = m" by (simp add: disconnect_def)
    with False show ?thesis
      by (auto simp: Cons.IH intro!: filter_cong)
  qed
qed

lemma foldl_disconnect_names_at:
  "map_of (client_names (foldl disconnect m cs)) c =
     (if c \<in> set cs \<and> has_key (active_connections m) c then None else map_of (client_names m) c)"
  using map_of_filter_key [of "\<lambda>k. \<not> (k \<in> set cs \<and> has_key (active_connections m) k)" "client_names m" c]
  by (simp add: foldl_disconnect_field [of client_names, OF disconnect_names])

lemma foldl_disconnect_ips_at:
  "map_of (client_ips (foldl disconnect m cs)) c =
     (if c \<in> set cs \<and> has_key (active_connections m) c then None else map_of (client_ips m) c)"
  using map_of_filter_key [of "\<lambda>k. \<not> (k \<in> set cs \<and> has_key (active_connections m) k)" "client_ips m" c]
  by (simp add: foldl_disconnect_field [of client_ips, OF disconnect_ips])

lemma foldl_disconnect_fields:
  "client_counter (foldl disconnect m cs) = client_counter m"
  "max_peers_per_room (foldl disconnect m cs) = max_peers_per_room m"
  by (induction cs arbitrary: m) simp_all

lemma failed_recipients:
  "map recipient (filter send_failed (map (\<lambda>p. send_json fails (snd p) (fst p) message) xs)) =
     map fst (filter (\<lambda>p. fails (snd p)) xs)"
  by (induction xs) (auto simp: send_json_def)

text \<open>
  Claim C4, as the code has it. A broadcast that excludes the sender and filters on a room
  performs one send for each connected client other than the sender whose room is that
  room, and for no one else: not for the sender, not for a client of another room. A send
  that raises does not stop the loop: the recipient gets a \<open>SendError\<close> effect and the later
  recipients still get their send. After the loop the registry is the old one after
  \<open>disconnect\<close> of each recipient whose send raised, in the order of the sends: such a
  recipient has no connection, room, name or address entry any more, and every other client
  keeps all four. The effects of the broadcast are these sends of the message and nothing
  else.
\<close>

theorem broadcast_multicast:
  assumes "broadcast m fails message (Some sender) (Some room) = (m', effs)"
  shows "recipient ` set effs =
           {cid. has_key (active_connections m) cid \<and> cid \<noteq> sender \<and>
                 map_of (client_rooms m) cid = Some room} \<and>
         map recipient effs =
           map fst (filter (\<lambda>p. fst p \<noteq> sender \<and> map_of (client_rooms m) (fst p) = Some room)
                      (active_connections m)) \<and>
         (\<forall>e \<in> set effs. payload e = message) \<and>
         m' = foldl disconnect m (map recipient (filter send_failed effs)) \<and>
         (\<forall>cid ws. (cid, ws) \<in> set (active_connections m) \<and> cid \<noteq> sender \<and>
              map_of (client_rooms m) cid = Some room \<longrightarrow>
              (if fails ws
               then SendError cid message \<in> set effs \<and>
                    \<not> has_key (active_connections m') cid \<and> map_of (client_rooms m') cid = None \<and>
                    map_of (client_names m') cid = None \<and> map_of (client_ips m') cid = None
               else Sent cid message \<in> set effs)) \<and>
         (\<forall>cid. \<not> (\<exists>ws. (cid, ws) \<in> set (active_connections m) \<and> cid \<noteq> sender \<and>
                    map_of (client_rooms m) cid = Some room \<and> fails ws) \<longrightarrow>
              map_of (active_connections m') cid = map_of (active_connections m) cid \<and>
              map_of (client_rooms m') cid = map_of (client_rooms m) cid \<and>
              map_of (client_names m') cid = map_of (client_names m) cid \<and>
              map_of (client_ips m') cid = map_of (client_ips m) cid) \<and>
         client_counter m' = client_counter m \<and> max_peers_per_room m' = max_peers_per_room m"
proof -
  let ?tgt = "is_target m (Some sender) (Some room)"
  let ?dis = "map fst (filter (\<lambda>p. ?tgt p \<and> fails (snd p)) (active_connections m))"
  have tgt: "?tgt p \<longleftrightarrow> fst p \<noteq> sender \<and> map_of (client_rooms m) (fst p) = Some room" for p
    by (auto simp: is_target_def)
  from assms have m': "m' = foldl disconnect m ?dis"
    and effs: "effs = map (\<lambda>p. send_json fails (snd p) (fst p) message)
                        (filter ?tgt (active_connections m))"
    by (simp_all add: broadcast_eq)
  have rcp: "recipient (send_json fails w c message) = c" for w c
    by (simp add: send_json_def)
  have pay: "payload (send_json fails w c message) = message" for w c
    by (simp add: send_json_def)
  have order: "map recipient effs =
           map fst (filter (\<lambda>p. fst p \<noteq> sender \<and> map_of (client_rooms m) (fst p) = Some room)
                      (active_connections m))"
  proof -
    have "?tgt = (\<lambda>p. fst p \<noteq> sender \<and> map_of (client_rooms m) (fst p) = Some room)"
      by (rule ext) (rule tgt)
    then show ?thesis unfolding effs by (simp add: rcp o_def)
  qed
  have "recipient ` set effs = set (map recipient effs)" by simp
  also have "\<dots> = {cid. has_key (active_connections m) cid \<and> cid \<noteq> sender \<and>
                 map_of (client_rooms m) cid = Some room}"
    unfolding order by (force simp: has_key_iff)
  finally have exact: "recipient ` set effs = {cid. has_key (active_connections m) cid \<and> cid \<noteq> sender \<and>
                 map_of (client_rooms m) cid = Some room}" .
  have payload: "\<forall>e \<in> set effs. payload e = message"
    unfolding effs by (auto simp: pay)
  have "map recipient (filter send_failed effs) =
          map fst (filter (\<lambda>p. fails (snd p)) (filter ?tgt (active_connections m)))"
    unfolding effs by (rule failed_recipients)
  also have "\<dots> = ?dis" by (simp add: conj_commute)
  finally have failed: "map recipient (filter send_failed effs) = ?dis" .
  have cleaned: "m' = foldl disconnect m (map recipient (filter send_failed effs))"
    unfolding failed by (rule m')
  have dis: "c \<in> set ?dis \<longleftrightarrow> (\<exists>ws. (c, ws) \<in> set (active_connections m) \<and> c \<noteq> sender \<and>
                    map_of (client_rooms m) c = Some room \<and> fails ws)" for c
    by (force simp: tgt)
  have each: "\<forall>cid ws. (cid, ws) \<in> set (active_connections m) \<and> cid \<noteq> sender \<and>
              map_of (client_rooms m) cid = Some room \<longrightarrow>
              (if fails ws
               then SendError cid message \<in> set effs \<and>
                    \<not> has_key (active_connections m') cid \<and> map_of (client_rooms m') cid = None \<and>
                    map_of (client_names m') cid = None \<and> map_of (client_ips m') cid = None
               else Sent cid message \<in> set effs)"
  proof (intro allI impI)
    fix cid ws
    assume a: "(cid, ws) \<in> set (active_connections m) \<and> cid \<noteq> sender \<and>
              map_of (client_rooms m) cid = Some room"
    then have in_tgt: "(cid, ws) \<in> set (filter ?tgt (active_connections m))"
      by (simp add: tgt)
    have sent: "send_json fails ws cid message \<in> set effs"
      unfolding effs using in_tgt by force
    show "if fails ws
               then SendError cid message \<in> set effs \<and>
                    \<not> has_key (active_connections m') cid \<and> map_of (client_rooms m') cid = None \<and>
                    map_of (client_names m') cid = None \<and> map_of (client_ips m') cid = None
               else Sent cid message \<in> set effs"
    proof (cases "fails ws")
      case True
      with a have d: "cid \<in> set ?dis" unfolding dis by blast
      from a have k: "has_key (active_connections m) cid"
        by (force simp: has_key_iff)
      have "map_of (active_connections m') cid = None"
        unfolding m' using d by (simp add: foldl_disconnect_active_lookup)
      moreover have "map_of (client_rooms m') cid = None"
        unfolding m' using d k by (simp add: foldl_disconnect_rooms_lookup)
      moreover have "map_of (client_names m') cid = None"
        unfolding m' using d k by (simp add: foldl_disconnect_names_at)
      moreover have "map_of (client_ips m') cid = None"
        unfolding m' using d k by (simp add: foldl_disconnect_ips_at)
      ultimately have "\<not> has_key (active_connections m') cid \<and> map_of (client_rooms m') cid = None \<and>
          map_of (client_names m') cid = None \<and> map_of (client_ips m') cid = None"
        by (simp add: has_key_def)
      with True sent show ?thesis by (simp add: send_json_def)
    next
      case False
      with sent show ?thesis by (simp add: send_json_def)
    qed
  qed
  have others: "\<forall>cid. \<not> (\<exists>ws. (cid, ws) \<in> set (active_connections m) \<and> cid \<noteq> sender \<and>
                    map_of (client_rooms m) cid = Some room \<and> fails ws) \<longrightarrow>
              map_of (active_connections m') cid = map_of (active_connections m) cid \<and>
              map_of (client_rooms m') cid = map_of (client_rooms m) cid \<and>
              map_of (client_names m') cid = map_of (client_names m) cid \<and>
              map_of (client_ips m') cid = map_of (client_ips m) cid"
  proof (intro allI impI)
    fix cid
    assume "\<not> (\<exists>ws. (cid, ws) \<in> set (active_connections m) \<and> cid \<noteq> sender \<and>
                    map_of (client_rooms m) cid = Some room \<and> fails ws)"
    then have d: "cid \<notin> set ?dis" unfolding dis by blast
    have "map_of (active_connections m') cid = map_of (active_connections m) cid"
      unfolding m' using d by (simp add: foldl_disconnect_active_lookup)
    moreover have "map_of (client_rooms m') cid = map_of (client_rooms m) cid"
      unfolding m' using d by (simp add: foldl_disconnect_rooms_lookup)
    moreover have "map_of (client_names m') cid = map_of (client_names m) cid"
      unfolding m' using d by (simp add: foldl_disconnect_names_at)
    moreover have "map_of (client_ips m') cid = map_of (client_ips m) cid"
      unfolding m' using d by (simp add: foldl_disconnect_ips_at)
    ultimately show "map_of (active_connections m') cid = map_of (active_connections m) cid \<and>
              map_of (client_rooms m') cid = map_of (client_rooms m) cid \<and>
              map_of (client_names m') cid = map_of (client_names m) cid \<and>
              map_of (client_ips m') cid = map_of (client_ips m) cid"
      by simp
  qed
  have fields: "client_counter m' = client_counter m \<and> max_peers_per_room m' = max_peers_per_room m"
    unfolding m' by (simp add: foldl_disconnect_fields)
  from exact order payload cleaned each others fields show ?thesis by blast
qed

theorem broadcast_multicast_witness:
  "broadcast
     \<lparr>active_connections = [(1, 10), (2, 11), (3, 12), (4, 13)],
      client_names = [(1, JStr ''A''), (4, JStr ''D'')],
      client_rooms = [(1, ''lobby''), (2, ''lobby''), (3, ''lobby_1''), (4, ''lobby'')],
      client_ips = [(1, ''a''), (2, ''b''), (3, ''c''), (4, ''d'')],
      client_counter = 4, max_peers_per_room = 3\<rparr>
     (only_fails 10) (JStr ''hello'') (Some 2) (Some ''lobby'')
   = (\<lparr>active_connections = [(2, 11), (3, 12), (4, 13)], client_names = [(4, JStr ''D'')],
      client_rooms = [(2, ''lobby''), (3, ''lobby_1''), (4, ''lobby'')],
      client_ips = [(2, ''b''), (3, ''c''), (4, ''d'')],
      client_counter = 4, max_peers_per_room = 3\<rparr>,
      [SendError 1 (JStr ''hello''), Sent 4 (JStr ''hello'')]) \<and>
   recipient ` set [SendError 1 (JStr ''hello''), Sent 4 (JStr ''hello'')] = {1, 4} \<and>
   SendError 1 (JStr ''hello'') \<in> set [SendError 1 (JStr ''hello''), Sent 4 (JStr ''hello'')] \<and>
   \<not> has_key [(2, 11::nat), (3, 12), (4, 13)] (1::int) \<and>
   map_of [(4::int, JStr ''D'')] 1 = None \<and>
   Sent 4 (JStr ''hello'') \<in> set [SendError 1 (JStr ''hello''), Sent 4 (JStr ''hello'')]"
proof -
  let ?M = "\<lparr>active_connections = [(1, 10), (2, 11), (3, 12), (4, 13)],
      client_names = [(1, JStr ''A''), (4, JStr ''D'')],
      client_rooms = [(1, ''lobby''), (2, ''lobby''), (3, ''lobby_1''), (4, ''lobby'')],
      client_ips = [(1, ''a''), (2, ''b''), (3, ''c''), (4, ''d'')],
      client_counter = 4, max_peers_per_room = 3\<rparr>"
  let ?M' = "\<lparr>active_connections = [(2, 11), (3, 12), (4, 13)], client_names = [(4, JStr ''D'')],
      client_rooms = [(2, ''lobby''), (3, ''lobby_1''), (4, ''lobby'')],
      client_ips = [(2, ''b''), (3, ''c''), (4, ''d'')],
      client_counter = 4, max_peers_per_room = 3\<rparr>"
  let ?E = "[SendError 1 (JStr ''hello''), Sent 4 (JStr ''hello'')]"
  have h: "broadcast ?M (only_fails 10) (JStr ''hello'') (Some 2) (Some ''lobby'') = (?M', ?E)"
    by code_simp
  have "map recipient ?E =
           map fst (filter (\<lambda>p. fst p \<noteq> 2 \<and> map_of (client_rooms ?M) (fst p) = Some ''lobby'')
                      (active_connections ?M))"
    using broadcast_multicast [OF h] by blast
  then have rcp: "recipient ` set ?E = {1, 4}" by simp
  have each: "(cid, ws) \<in> set (active_connections ?M) \<and> cid \<noteq> 2 \<and>
      map_of (client_rooms ?M) cid = Some ''lobby'' \<longrightarrow>
      (if only_fails 10 ws
       then SendError cid (JStr ''hello'') \<in> set ?E \<and>
            \<not> has_key (active_connections ?M') cid \<and> map_of (client_rooms ?M') cid = None \<and>
            map_of (client_names ?M') cid = None \<and> map_of (client_ips ?M') cid = None
       else Sent cid (JStr ''hello'') \<in> set ?E)" for cid ws
    using broadcast_multicast [OF h] by blast
  from each [of 1 10] have one: "SendError 1 (JStr ''hello'') \<in> set ?E \<and>
      \<not> has_key (active_connections ?M') 1 \<and> map_of (client_names ?M') 1 = None"
    by (simp add: only_fails_def)
  from each [of 4 13] have four: "Sent 4 (JStr ''hello'') \<in> set ?E"
    by (simp add: only_fails_def)
  from h rcp one four show ?thesis by simp
qed

text \<open>
  The claim C4 as stated fails where it says that the failed send triggers the recipient's
  disconnect cleanup. Client 2 broadcasts to the lobby and the send to client 1 raises.
  The broadcast sends the message and nothing else: nobody is told that client 1 has
  disconnected, which is what the closing of client 1's own session would do (two
  \<open>peer-disconnected\<close> messages). The handler of client 1 is not ended either: its next
  chat message is dispatched and sent to the room.
\<close>

theorem failed_recipient_not_notified_counterexample:
  "broadcast
     \<lparr>active_connections = [(1, 10), (2, 11), (3, 12), (4, 13)],
      client_names = [(1, JStr ''A''), (4, JStr ''D'')],
      client_rooms = [(1, ''lobby''), (2, ''lobby''), (3, ''lobby_1''), (4, ''lobby'')],
      client_ips = [(1, ''a''), (2, ''b''), (3, ''c''), (4, ''d'')],
      client_counter = 4, max_peers_per_room = 3\<rparr>
     (only_fails 10) (JStr ''hello'') (Some 2) (Some ''lobby'')
   = (\<lparr>active_connections = [(2, 11), (3, 12), (4, 13)], client_names = [(4, JStr ''D'')],
      client_rooms = [(2, ''lobby''), (3, ''lobby_1''), (4, ''lobby'')],
      client_ips = [(2, ''b''), (3, ''c''), (4, ''d'')],
      client_counter = 4, max_peers_per_room = 3\<rparr>,
      [SendError 1 (JStr ''hello''), Sent 4 (JStr ''hello'')]) \<and>
   cleanup
     \<lparr>active_connections = [(1, 10), (2, 11), (3, 12), (4, 13)],
      client_names = [(1, JStr ''A''), (4, JStr ''D'')],
      client_rooms = [(1, ''lobby''), (2, ''lobby''), (3, ''lobby_1''), (4, ''lobby'')],
      client_ips = [(1, ''a''), (2, ''b''), (3, ''c''), (4, ''d'')],
      client_counter = 4, max_peers_per_room = 3\<rparr>
     (only_fails 10) \<lparr>sess_client_id = 1, sess_room_id = ''lobby'', sess_websocket = 10\<rparr>
   = (\<lparr>active_connections = [(2, 11), (3, 12), (4, 13)], client_names = [(4, JStr ''D'')],
      client_rooms = [(2, ''lobby''), (3, ''lobby_1''), (4, ''lobby'')],
      client_ips = [(2, ''b''), (3, ''c''), (4, ''d'')],
      client_counter = 4, max_peers_per_room = 3\<rparr>,
      [Sent 2 (peer_disconnected_message 1 3 2), Sent 4 (peer_disconnected_message 1 3 2)]) \<and>
   handle_message
     \<lparr>active_connections = [(2, 11), (3, 12), (4, 13)], client_names = [(4, JStr ''D'')],
      client_rooms = [(2, ''lobby''), (3, ''lobby_1''), (4, ''lobby'')],
      client_ips = [(2, ''b''), (3, ''c''), (4, ''d'')],
      client_counter = 4, max_peers_per_room = 3\<rparr>
     all_delivered \<lparr>sess_client_id = 1, sess_room_id = ''lobby'', sess_websocket = 10\<rparr>
     (Frame (JObj [(''type'', JStr ''chat''), (''text'', JStr ''hi'')]))
   = Active \<lparr>sess_client_id = 1, sess_room_id = ''lobby'', sess_websocket = 10\<rparr>
      \<lparr>active_connections = [(2, 11), (3, 12), (4, 13)], client_names = [(4, JStr ''D'')],
       client_rooms = [(2, ''lobby''), (3, ''lobby_1''), (4, ''lobby'')],
       client_ips = [(2, ''b''), (3, ''c''), (4, ''d'')],
       client_counter = 4, max_peers_per_room = 3\<rparr>
      [Sent 2 (chat_message [(''type'', JStr ''chat''), (''text'', JStr ''hi'')] 1),
       Sent 4 (chat_message [(''type'', JStr ''chat''), (''text'', JStr ''hi'')] 1)]"
  by code_simp

section \<open>The shape of the registry after a handler step\<close>

lemma shrinks_refl [simp]: "shrinks m m"
  unfolding shrinks_def by (rule exI [of _ "[]"]) simp

lemma shrinks_trans: "shrinks m m1 \<Longrightarrow> shrinks m1 m2 \<Longrightarrow> shrinks m m2"
  unfolding shrinks_def by (metis foldl_append)

lemma shrinks_disconnect [simp]: "shrinks m (disconnect m c)"
  unfolding shrinks_def by (rule exI [of _ "[c]"]) simp

lemma shrinks_broadcast: "broadcast m fails message ex room = (m', effs) \<Longrightarrow> shrinks m m'"
  unfolding shrinks_def by (auto simp: broadcast_eq)

lemma shrinks_cleanup: "shrinks m (fst (cleanup m fails s))"
proof (cases "sess_client_id s \<noteq> 0 \<and> sess_room_id s \<noteq> []")
  case True
  let ?m1 = "disconnect m (sess_client_id s)"
  from True obtain msg where
    "cleanup m fails s = broadcast ?m1 fails msg (Some (sess_client_id s)) (Some (sess_room_id s))"
    by (simp add: cleanup_def Let_def)
  then have "shrinks ?m1 (fst (cleanup m fails s))"
    using shrinks_broadcast [of ?m1 fails msg "Some (sess_client_id s)" "Some (sess_room_id s)"]
    by (metis prod.collapse)
  with shrinks_disconnect show ?thesis by (rule shrinks_trans)
next
  case False
  then show ?thesis by (auto simp: cleanup_def Let_def)
qed

lemma close_eq:
  "close m fails s effs = Closed (fst (cleanup m fails s)) (effs @ snd (cleanup m fails s))"
  by (simp add: close_def split: prod.splits)

lemma shrinks_close: "outcome_manager (close m fails s effs) = Some m' \<Longrightarrow> shrinks m m'"
  using shrinks_cleanup [of m fails s] by (auto simp: close_eq)

lemma shrinks_dispatch: "outcome_manager (dispatch m fails s d) = Some m' \<Longrightarrow> shrinks m m'"
  unfolding dispatch_def Let_def
  by (auto split: if_splits py.splits option.splits prod.splits
           dest: shrinks_close shrinks_broadcast)

lemma shrinks_induct:
  "shrinks m m' \<Longrightarrow> P m \<Longrightarrow> (\<And>m c. P m \<Longrightarrow> P (disconnect m c)) \<Longrightarrow> P m'"
  unfolding shrinks_def by (auto intro: foldl_disconnect_induct)

lemma handle_message_shape:
  assumes "outcome_manager (handle_message m fails s rcv) = Some m'"
  shows "\<exists>names. shrinks (m\<lparr>client_names := names\<rparr>) m'"
proof (cases "\<exists>d. rcv = Frame (JObj d)")
  case True
  then obtain d where d: "rcv = Frame (JObj d)" by blast
  with assms have "shrinks (update_peer_name m s d) m'"
    by (simp add: handle_message_def shrinks_dispatch)
  moreover have "\<exists>names. update_peer_name m s d = m\<lparr>client_names := names\<rparr>"
    unfolding update_peer_name_def by (cases "has_key d ''peerName'' \<and> sess_client_id s \<noteq> 0") (auto intro: exI [of _ "client_names m"])
  ultimately show ?thesis by metis
next
  case False
  with assms have "outcome_manager (close m fails s []) = Some m'"
    by (auto simp: handle_message_def split: received.splits json.splits)
  then have "shrinks m m'" by (rule shrinks_close)
  then have "shrinks (m\<lparr>client_names := client_names m\<rparr>) m'" by simp
  then show ?thesis by blast
qed

lemma shrinks_join_handshake:
  "outcome_manager (join_handshake m fails s pn rr red d) = Some m' \<Longrightarrow> shrinks m m'"
  unfolding join_handshake_def Let_def
  by (auto split: if_splits py.splits prod.splits
           dest: shrinks_close shrinks_broadcast intro: shrinks_trans)

lemma join_shape:
  assumes "websocket_endpoint_join m fails ws ip rcv = Some out" "outcome_manager out = Some m'"
  shows "m' = m \<or> (\<exists>pn r m2 s red. admit m ws ip pn r = Some (m2, s, red) \<and> shrinks m2 m')"
proof (cases "\<exists>d. rcv = Frame (JObj d)")
  case True
  then obtain d where d: "rcv = Frame (JObj d)" by blast
  let ?pn = "py_or (dict_get d ''peerName'') (dict_get d ''name'')"
  from assms d obtain r where r: "py_or (dict_get d ''roomId'') (JStr ''default'') = JStr r"
    by (auto simp: websocket_endpoint_join_def Let_def split: json.splits)
  with assms d obtain m2 s red where a: "admit m ws ip ?pn r = Some (m2, s, red)"
    and out: "out = join_handshake m2 fails s ?pn r red d"
    by (auto simp: websocket_endpoint_join_def Let_def split: option.splits)
  from assms(2) out have "shrinks m2 m'" by (simp add: shrinks_join_handshake)
  with a show ?thesis by blast
next
  case False
  with assms have "out = Closed m []"
    by (auto simp: websocket_endpoint_join_def split: received.splits json.splits)
  with assms(2) show ?thesis by simp
qed

lemma evolves_invariant:
  assumes "evolves m m'" "P m"
    and dis: "\<And>m c. P m \<Longrightarrow> P (disconnect m c)"
    and ren: "\<And>m names. P m \<Longrightarrow> P (m\<lparr>client_names := names\<rparr>)"
    and adm: "\<And>m ws ip pn r m2 s red. P m \<Longrightarrow> admit m ws ip pn r = Some (m2, s, red) \<Longrightarrow> P m2"
  shows "P m'"
  using assms(1,2)
proof (induction rule: evolves.induct)
  case (evolves_refl m)
  then show ?case by simp
next
  case (evolves_join m m1 fails ws client_ip rcv out m2)
  then have "P m1" by simp
  from join_shape [OF evolves_join.hyps(2,3)] show ?case
  proof
    assume "m2 = m1" with \<open>P m1\<close> show ?thesis by simp
  next
    assume "\<exists>pn r m2' s red. admit m1 ws client_ip pn r = Some (m2', s, red) \<and> shrinks m2' m2"
    then obtain pn r m2' s red where a: "admit m1 ws client_ip pn r = Some (m2', s, red)"
      and sh: "shrinks m2' m2" by blast
    from adm [OF \<open>P m1\<close> a] have "P m2'" .
    with sh show ?thesis by (rule shrinks_induct) (rule dis)
  qed
next
  case (evolves_message m m1 fails s rcv m2)
  then have "P m1" by simp
  from handle_message_shape [OF evolves_message.hyps(2)] obtain names
    where "shrinks (m1\<lparr>client_names := names\<rparr>) m2" by blast
  moreover have "P (m1\<lparr>client_names := names\<rparr>)" using \<open>P m1\<close> by (rule ren)
  ultimately show ?case by (rule shrinks_induct) (rule dis)
qed

section \<open>The capacity of a room\<close>

lemma peers_disconnect_le:
  "length (get_peers_in_room (disconnect m c) room) \<le> length (get_peers_in_room m room)"
proof -
  have "length (filter P (filter Q xs)) \<le> length (filter P xs)" for P Q and xs :: "(int \<times> string) list"
    by (induction xs) auto
  then show ?thesis
    by (simp add: get_peers_in_room_def disconnect_rooms)
qed

lemma peers_rename [simp]:
  "get_peers_in_room (m\<lparr>client_names := names\<rparr>) room = get_peers_in_room m room"
  by (simp add: get_peers_in_room_def)

lemma count_update_le:
  "length (filter (\<lambda>(c, r). r = room) (AList.update k v xs))
     \<le> length (filter (\<lambda>(c, r). r = room) xs) + (if v = room then 1 else 0)"
  by (induction xs) auto

lemma register_client_fields [simp]:
  "client_rooms (register_client m cid room ws ip pn) = AList.update cid room (client_rooms m)"
  "active_connections (register_client m cid room ws ip pn) = AList.update cid ws (active_connections m)"
  "client_counter (register_client m cid room ws ip pn) = client_counter m"
  "max_peers_per_room (register_client m cid room ws ip pn) = max_peers_per_room m"
  by (simp_all add: register_client_def Let_def)

lemma admit_eq:
  assumes "admit m ws ip pn r = Some (m2, s, red)"
  shows "find_available_room m r = Some (sess_room_id s, red)"
    and "sess_client_id s = client_counter m + 1"
    and "sess_websocket s = ws"
    and "m2 = register_client (m\<lparr>client_counter := client_counter m + 1\<rparr>)
                (client_counter m + 1) (sess_room_id s) ws ip pn"
  using assms by (auto simp: admit_def Let_def split: option.splits prod.splits)

lemma has_space_counter [simp]:
  "has_space (m\<lparr>client_counter := n\<rparr>) room = has_space m room"
  by (simp add: has_space_def get_peers_in_room_def)

lemma admit_capacity:
  assumes "admit m ws ip pn r = Some (m2, s, red)"
    and "\<forall>room. int (length (get_peers_in_room m room)) \<le> max_peers_per_room m"
  shows "\<forall>room. int (length (get_peers_in_room m2 room)) \<le> max_peers_per_room m2"
proof
  fix room
  let ?room = "sess_room_id s"
  from admit_eq(1) [OF assms(1)] have sp: "has_space m ?room"
    by (rule find_available_room_has_space)
  have m2: "client_rooms m2 = AList.update (client_counter m + 1) ?room (client_rooms m)"
    and mx: "max_peers_per_room m2 = max_peers_per_room m"
    by (simp_all add: admit_eq(4) [OF assms(1)])
  have le: "length (get_peers_in_room m2 room)
      \<le> length (get_peers_in_room m room) + (if ?room = room then 1 else 0)"
    using count_update_le [of room "client_counter m + 1" ?room "client_rooms m"]
    by (simp add: get_peers_in_room_def m2)
  show "int (length (get_peers_in_room m2 room)) \<le> max_peers_per_room m2"
  proof (cases "?room = room")
    case True
    with sp have "int (length (get_peers_in_room m room)) < max_peers_per_room m"
      by (simp add: has_space_def)
    with le True mx show ?thesis by simp
  next
    case False
    with le have "int (length (get_peers_in_room m2 room)) \<le> int (length (get_peers_in_room m room))"
      by simp
    moreover from assms(2) have "int (length (get_peers_in_room m room)) \<le> max_peers_per_room m"
      by blast
    ultimately show ?thesis using mx by linarith
  qed
qed

lemma evolves_capacity:
  assumes "0 \<le> C" "evolves (init_manager C) m"
  shows "max_peers_per_room m = C \<and> (\<forall>room. int (length (get_peers_in_room m room)) \<le> C)"
proof -
  let ?P = "\<lambda>m. max_peers_per_room m = C \<and> (\<forall>room. int (length (get_peers_in_room m room)) \<le> max_peers_per_room m)"
  have "?P m"
  proof (rule evolves_invariant [OF assms(2), of ?P])
    show "?P (init_manager C)"
      using assms(1) by (simp add: init_manager_def get_peers_in_room_def)
  next
    fix m c assume "?P m"
    then have mx: "max_peers_per_room m = C"
      and cap: "\<And>room. int (length (get_peers_in_room m room)) \<le> max_peers_per_room m"
      by blast+
    have "int (length (get_peers_in_room (disconnect m c) room)) \<le> max_peers_per_room m" for room
      using peers_disconnect_le [of m c room] cap [of room] by linarith
    with mx show "?P (disconnect m c)" by simp
  next
    fix m names assume "?P m"
    then show "?P (m\<lparr>client_names := names\<rparr>)" by auto
  next
    fix m ws ip pn r m2 s red
    assume p: "?P m" and a: "admit m ws ip pn r = Some (m2, s, red)"
    from p have "\<forall>room. int (length (get_peers_in_room m room)) \<le> max_peers_per_room m"
      by blast
    then have "\<forall>room. int (length (get_peers_in_room m2 room)) \<le> max_peers_per_room m2"
      by (rule admit_capacity [OF a])
    moreover have "max_peers_per_room m2 = max_peers_per_room m"
      by (simp add: admit_eq(4) [OF a])
    ultimately show "?P m2" using p by auto
  qed
  then show ?thesis by auto
qed

section \<open>Joining\<close>

lemma join_handshake_active:
  assumes "join_handshake m fails s pn rr red d = Active s' m' effs"
  shows "s' = s \<and> (\<exists>msg. m' = fst (broadcast m fails msg (Some (sess_client_id s)) (Some (sess_room_id s))))"
  using assms unfolding join_handshake_def Let_def
  by (auto simp: close_eq split: if_splits py.splits prod.splits) (metis fst_conv)+

lemma join_active:
  assumes "websocket_endpoint_join m fails ws ip rcv = Some (Active s m' effs)"
  shows "\<exists>d r m2 red msg. rcv = Frame (JObj d) \<and>
           py_or (dict_get d ''roomId'') (JStr ''default'') = JStr r \<and>
           admit m ws ip (py_or (dict_get d ''peerName'') (dict_get d ''name'')) r = Some (m2, s, red) \<and>
           m' = fst (broadcast m2 fails msg (Some (sess_client_id s)) (Some (sess_room_id s)))"
proof (cases "\<exists>d. rcv = Frame (JObj d)")
  case True
  then obtain d where d: "rcv = Frame (JObj d)" by blast
  let ?pn = "py_or (dict_get d ''peerName'') (dict_get d ''name'')"
  from assms d obtain r where r: "py_or (dict_get d ''roomId'') (JStr ''default'') = JStr r"
    by (auto simp: websocket_endpoint_join_def Let_def split: json.splits)
  with assms d obtain m2 s2 red where a: "admit m ws ip ?pn r = Some (m2, s2, red)"
    and out: "join_handshake m2 fails s2 ?pn r red d = Active s m' effs"
    by (auto simp: websocket_endpoint_join_def Let_def split: option.splits)
  from join_handshake_active [OF out] obtain msg where "s = s2"
    and "m' = fst (broadcast m2 fails msg (Some (sess_client_id s2)) (Some (sess_room_id s2)))"
    by blast
  with d r a show ?thesis by blast
next
  case False
  with assms show ?thesis
    by (auto simp: websocket_endpoint_join_def split: received.splits json.splits)
qed

lemma broadcast_keeps_excluded:
  assumes "m' = fst (broadcast m fails msg (Some c) room)"
  shows "map_of (client_rooms m') c = map_of (client_rooms m) c"
    and "map_of (active_connections m') c = map_of (active_connections m) c"
proof -
  let ?dis = "map fst (filter (\<lambda>p. is_target m (Some c) room p \<and> fails (snd p)) (active_connections m))"
  have nin: "c \<notin> set ?dis" by (auto simp: is_target_def)
  have m': "m' = foldl disconnect m ?dis" using assms by (simp add: broadcast_eq)
  show "map_of (client_rooms m') c = map_of (client_rooms m) c"
    unfolding m' using nin by (simp only: foldl_disconnect_rooms_lookup) simp
  show "map_of (active_connections m') c = map_of (active_connections m) c"
    unfolding m' using nin by (simp only: foldl_disconnect_active_lookup) simp
qed

lemma join_total:
  assumes "1 \<le> max_peers_per_room m"
  shows "websocket_endpoint_join m fails ws ip rcv \<noteq> None"
proof -
  have adm: "admit m ws ip pn r \<noteq> None" for pn r
    using find_available_room_total [OF assms, of r]
    by (auto simp: admit_def Let_def)
  show ?thesis
  proof (cases "\<exists>d r. rcv = Frame (JObj d) \<and> py_or (dict_get d ''roomId'') (JStr ''default'') = JStr r")
    case True
    then obtain d r where "rcv = Frame (JObj d)"
      "py_or (dict_get d ''roomId'') (JStr ''default'') = JStr r" by blast
    then show ?thesis
      using adm [of "py_or (dict_get d ''peerName'') (dict_get d ''name'')" r]
      by (auto simp: websocket_endpoint_join_def Let_def split: option.splits)
  next
    case False
    then show ?thesis
      by (auto simp: websocket_endpoint_join_def Let_def split: received.splits json.splits)
  qed
qed

text \<open>
  Claim C1. Start from the empty registry with capacity \<open>C \<ge> 0\<close> and let handshakes,
  messages and disconnections happen in any order. In every registry reached, no room
  string is the room of more than \<open>C\<close> clients. A client that completes the handshake
  while the room it asks for holds \<open>C\<close> clients is registered in the overflow room of the
  smallest index \<open>n \<ge> 1\<close> that is not full. With \<open>C \<ge> 1\<close> every handshake returns.
\<close>

theorem room_capacity_invariant:
  assumes "0 \<le> C" and "evolves (init_manager C) m"
  shows "(\<forall>room. int (length (get_peers_in_room m room)) \<le> C) \<and>
         (\<forall>fails ws ip d r s m' effs.
            websocket_endpoint_join m fails ws ip (Frame (JObj d)) = Some (Active s m' effs) \<and>
            py_or (dict_get d ''roomId'') (JStr ''default'') = JStr r \<and>
            int (length (get_peers_in_room m r)) = C \<longrightarrow>
            (\<exists>n\<ge>1. sess_room_id s = overflow_name r n \<and>
               int (length (get_peers_in_room m (overflow_name r n))) < C \<and>
               (\<forall>k. 1 \<le> k \<and> k < n \<longrightarrow> int (length (get_peers_in_room m (overflow_name r k))) = C)) \<and>
            map_of (client_rooms m') (sess_client_id s) = Some (sess_room_id s)) \<and>
         (1 \<le> C \<longrightarrow> (\<forall>fails ws ip rcv. websocket_endpoint_join m fails ws ip rcv \<noteq> None))"
proof -
  from evolves_capacity [OF assms] have mx: "max_peers_per_room m = C"
    and cap: "\<And>room. int (length (get_peers_in_room m room)) \<le> C"
    by blast+
  have sp: "has_space m room \<longleftrightarrow> int (length (get_peers_in_room m room)) < C" for room
    by (simp add: has_space_def mx)
  have full: "\<not> has_space m room \<longleftrightarrow> int (length (get_peers_in_room m room)) = C" for room
    using cap [of room] by (auto simp: sp)
  have join: "(\<exists>n\<ge>1. sess_room_id s = overflow_name r n \<and>
               int (length (get_peers_in_room m (overflow_name r n))) < C \<and>
               (\<forall>k. 1 \<le> k \<and> k < n \<longrightarrow> int (length (get_peers_in_room m (overflow_name r k))) = C)) \<and>
            map_of (client_rooms m') (sess_client_id s) = Some (sess_room_id s)"
    if j: "websocket_endpoint_join m fails ws ip (Frame (JObj d)) = Some (Active s m' effs)"
      and r: "py_or (dict_get d ''roomId'') (JStr ''default'') = JStr r"
      and f: "int (length (get_peers_in_room m r)) = C"
    for fails ws ip d r s m' effs
  proof -
    from join_active [OF j] r obtain m2 red msg pn where
      a: "admit m ws ip pn r = Some (m2, s, red)"
      and m': "m' = fst (broadcast m2 fails msg (Some (sess_client_id s)) (Some (sess_room_id s)))"
      by auto
    from f have "\<not> has_space m r" by (simp add: full)
    with find_available_room_result [OF admit_eq(1) [OF a]]
    obtain n where n: "n \<ge> 1" "sess_room_id s = overflow_name r n" "has_space m (overflow_name r n)"
      "\<forall>k. 1 \<le> k \<and> k < n \<longrightarrow> \<not> has_space m (overflow_name r k)"
      by auto
    have "map_of (client_rooms m2) (sess_client_id s) = Some (sess_room_id s)"
      by (simp add: admit_eq(4) [OF a] admit_eq(2) [OF a] update_conv)
    with broadcast_keeps_excluded(1) [OF m']
    have "map_of (client_rooms m') (sess_client_id s) = Some (sess_room_id s)" by simp
    moreover from n(3) have "int (length (get_peers_in_room m (overflow_name r n))) < C"
      by (simp add: sp)
    moreover from n(4) have "\<forall>k. 1 \<le> k \<and> k < n \<longrightarrow> int (length (get_peers_in_room m (overflow_name r k))) = C"
      by (simp add: full)
    ultimately show ?thesis using n(1,2) by blast
  qed
  have total: "websocket_endpoint_join m fails ws ip rcv \<noteq> None" if "1 \<le> C" for fails ws ip rcv
    using that join_total [of m] mx by simp
  show ?thesis
  proof (intro conjI allI impI)
    fix room show "int (length (get_peers_in_room m room)) \<le> C" by (rule cap)
  next
    fix fails ws ip d r s m' effs
    assume a: "websocket_endpoint_join m fails ws ip (Frame (JObj d)) = Some (Active s m' effs) \<and>
            py_or (dict_get d ''roomId'') (JStr ''default'') = JStr r \<and>
            int (length (get_peers_in_room m r)) = C"
    from join [of fails ws ip d s m' effs r] a
    show "\<exists>n\<ge>1. sess_room_id s = overflow_name r n \<and>
               int (length (get_peers_in_room m (overflow_name r n))) < C \<and>
               (\<forall>k. 1 \<le> k \<and> k < n \<longrightarrow> int (length (get_peers_in_room m (overflow_name r k))) = C)"
      by blast
    from join [of fails ws ip d s m' effs r] a
    show "map_of (client_rooms m') (sess_client_id s) = Some (sess_room_id s)"
      by blast
  next
    fix fails ws ip rcv
    assume "1 \<le> C"
    then show "websocket_endpoint_join m fails ws ip rcv \<noteq> None" by (rule total)
  qed
qed


theorem room_capacity_invariant_witness:
  "(0::int) \<le> 1 \<and>
   evolves (init_manager 1)
     \<lparr>active_connections = [(1, 10)], client_names = [(1, JStr ''A'')],
      client_rooms = [(1, ''room1'')], client_ips = [(1, ''ip1'')],
      client_counter = 1, max_peers_per_room = 1\<rparr> \<and>
   websocket_endpoint_join
     \<lparr>active_connections = [(1, 10)], client_names = [(1, JStr ''A'')],
      client_rooms = [(1, ''room1'')], client_ips = [(1, ''ip1'')],
      client_counter = 1, max_peers_per_room = 1\<rparr>
     (\<lambda>w. False) 11 ''ip2'' (Frame (JObj [(''name'', JStr ''B''), (''roomId'', JStr ''room1'')]))
   = Some (Active \<lparr>sess_client_id = 2, sess_room_id = ''room1_1'', sess_websocket = 11\<rparr>
       \<lparr>active_connections = [(1, 10), (2, 11)], client_names = [(1, JStr ''A''), (2, JStr ''B'')],
        client_rooms = [(1, ''room1''), (2, ''room1_1'')], client_ips = [(1, ''ip1''), (2, ''ip2'')],
        client_counter = 2, max_peers_per_room = 1\<rparr>
       [Sent 2 (welcome_message 2 2 0 ''room1_1''),
        Sent 2 (room_redirect_message ''room1'' 1 ''room1_1'')]) \<and>
   (\<forall>room. int (length (get_peers_in_room
       \<lparr>active_connections = [(1, 10)], client_names = [(1, JStr ''A'')],
        client_rooms = [(1, ''room1'')], client_ips = [(1, ''ip1'')],
        client_counter = 1, max_peers_per_room = 1\<rparr> room)) \<le> 1) \<and>
   (\<exists>n\<ge>1. ''room1_1'' = overflow_name ''room1'' n)"
proof -
  let ?M = "\<lparr>active_connections = [(1, 10)], client_names = [(1, JStr ''A'')],
      client_rooms = [(1, ''room1'')], client_ips = [(1, ''ip1'')],
      client_counter = 1, max_peers_per_room = 1\<rparr>"
  let ?M' = "\<lparr>active_connections = [(1, 10), (2, 11)], client_names = [(1, JStr ''A''), (2, JStr ''B'')],
        client_rooms = [(1, ''room1''), (2, ''room1_1'')], client_ips = [(1, ''ip1''), (2, ''ip2'')],
        client_counter = 2, max_peers_per_room = 1\<rparr>"
  let ?sA = "\<lparr>sess_client_id = 1, sess_room_id = ''room1'', sess_websocket = 10\<rparr>"
  let ?sB = "\<lparr>sess_client_id = 2, sess_room_id = ''room1_1'', sess_websocket = 11\<rparr>"
  let ?dB = "[(''name'', JStr ''B''), (''roomId'', JStr ''room1'')]"
  let ?effs = "[Sent 2 (welcome_message 2 2 0 ''room1_1''),
        Sent 2 (room_redirect_message ''room1'' 1 ''room1_1'')]"
  have c: "(0::int) \<le> 1" by simp
  have jA: "websocket_endpoint_join (init_manager 1) (\<lambda>w. False) 10 ''ip1''
              (Frame (JObj [(''peerName'', JStr ''A''), (''roomId'', JStr ''room1'')]))
            = Some (Active ?sA ?M [Sent 1 (welcome_message 1 1 0 ''room1'')])"
    by code_simp
  have ev: "evolves (init_manager 1) ?M"
    by (rule evolves_join [OF evolves_refl jA]) simp
  have jB: "websocket_endpoint_join ?M (\<lambda>w. False) 11 ''ip2'' (Frame (JObj ?dB))
            = Some (Active ?sB ?M' ?effs)"
    by code_simp
  have r: "py_or (dict_get ?dB ''roomId'') (JStr ''default'') = JStr ''room1''" by code_simp
  have f: "int (length (get_peers_in_room ?M ''room1'')) = 1" by code_simp
  note inv = room_capacity_invariant [OF c ev]
  from inv have cap: "\<forall>room. int (length (get_peers_in_room ?M room)) \<le> 1" by blast
  from inv jB r f have "\<exists>n\<ge>1. sess_room_id ?sB = overflow_name ''room1'' n \<and>
               int (length (get_peers_in_room ?M (overflow_name ''room1'' n))) < 1 \<and>
               (\<forall>k. 1 \<le> k \<and> k < n \<longrightarrow> int (length (get_peers_in_room ?M (overflow_name ''room1'' k))) = 1)"
    by blast
  then have "\<exists>n\<ge>1. ''room1_1'' = overflow_name ''room1'' n" by auto
  with c ev jB cap show ?thesis by blast
qed

section \<open>Well-formed registries and sessions\<close>

lemma keys_filter_neq: "fst ` {x \<in> set xs. fst x \<noteq> c} = fst ` set xs - {c}"
  by force

lemma wf_disconnect: "wf_manager m \<Longrightarrow> wf_manager (disconnect m c)"
proof (cases "has_key (active_connections m) c")
  case True
  assume "wf_manager m"
  with True show ?thesis
    unfolding wf_manager_def
    by (auto simp: disconnect_active disconnect_rooms keys_filter_neq distinct_map_filter)
next
  case False
  assume "wf_manager m"
  with False show ?thesis by (simp add: disconnect_def)
qed

lemma wf_rename: "wf_manager m \<Longrightarrow> wf_manager (m\<lparr>client_names := names\<rparr>)"
  by (simp add: wf_manager_def)

lemma wf_admit:
  assumes "wf_manager m" "admit m ws ip pn r = Some (m2, s, red)"
  shows "wf_manager m2"
proof -
  let ?cid = "client_counter m + 1"
  have rooms: "client_rooms m2 = AList.update ?cid (sess_room_id s) (client_rooms m)"
    and act: "active_connections m2 = AList.update ?cid ws (active_connections m)"
    and cnt: "client_counter m2 = ?cid"
    by (simp_all add: admit_eq(4) [OF assms(2)])
  from assms(1) show ?thesis
    unfolding wf_manager_def rooms act cnt
    by (auto simp: distinct_update dom_update)
qed

lemma wf_init: "wf_manager (init_manager C)"
  by (simp add: wf_manager_def init_manager_def)

lemma evolves_wf: "evolves m m' \<Longrightarrow> wf_manager m \<Longrightarrow> wf_manager m'"
  by (erule evolves_invariant) (auto intro: wf_disconnect wf_rename wf_admit)

lemma evolves_counter: "evolves m m' \<Longrightarrow> k \<le> client_counter m \<Longrightarrow> k \<le> client_counter m'"
proof (erule evolves_invariant [where P = "\<lambda>m. k \<le> client_counter m"], goal_cases)
  case 1 then show ?case by simp
next
  case 2 then show ?case by simp
next
  case 3 then show ?case by simp
next
  case (4 m ws ip pn r m2 s red)
  then show ?case by (simp add: admit_eq(4) [OF 4(3)])
qed

lemma shrinks_fields:
  assumes "shrinks m m'"
  shows "client_counter m' = client_counter m"
    and "fst ` set (client_rooms m') \<subseteq> fst ` set (client_rooms m)"
proof -
  from assms show "client_counter m' = client_counter m"
    by (rule shrinks_induct) simp_all
  from assms show "fst ` set (client_rooms m') \<subseteq> fst ` set (client_rooms m)"
    by (rule shrinks_induct) (auto simp: disconnect_rooms split: if_splits)
qed

lemma evolves_gone:
  assumes "evolves m m'" "c \<notin> fst ` set (client_rooms m)" "c \<le> client_counter m"
  shows "c \<notin> fst ` set (client_rooms m')"
proof -
  let ?P = "\<lambda>m. c \<notin> fst ` set (client_rooms m) \<and> c \<le> client_counter m"
  have "?P m'"
  proof (rule evolves_invariant [OF assms(1), of ?P], goal_cases)
    case 1 from assms(2,3) show ?case by simp
  next
    case (2 m k) then show ?case by (auto simp: disconnect_rooms split: if_splits)
  next
    case 3 then show ?case by simp
  next
    case (4 m ws ip pn r m2 s red)
    then show ?case by (auto simp: admit_eq(4) [OF 4(2)] dom_update)
  qed
  then show ?thesis by simp
qed

lemma peers_subset_keys: "set (get_peers_in_room m room) \<subseteq> fst ` set (client_rooms m)"
  by (auto simp: get_peers_in_room_def)

lemma py_or_default_nonempty: "py_or x (JStr ''default'') = JStr r \<Longrightarrow> r \<noteq> []"
  by (cases "truthy x") (auto simp: py_or_def)

lemma find_available_room_nonempty:
  assumes "find_available_room m r = Some (room, red)" "r \<noteq> []"
  shows "room \<noteq> []"
  using find_available_room_result [OF assms(1)] assms(2)
  by (auto simp: overflow_name_def split: if_splits)

lemma join_session:
  assumes "websocket_endpoint_join m fails ws ip rcv = Some (Active s m' effs)"
  shows "sess_client_id s = client_counter m + 1"
    and "client_counter m' = client_counter m + 1"
    and "sess_room_id s \<noteq> []"
proof -
  from join_active [OF assms] obtain d r m2 red msg pn where
    r: "py_or (dict_get d ''roomId'') (JStr ''default'') = JStr r"
    and a: "admit m ws ip pn r = Some (m2, s, red)"
    and m': "m' = fst (broadcast m2 fails msg (Some (sess_client_id s)) (Some (sess_room_id s)))"
    by blast
  show "sess_client_id s = client_counter m + 1" by (rule admit_eq(2) [OF a])
  have "shrinks m2 m'" unfolding m' by (metis prod.collapse shrinks_broadcast)
  then have "client_counter m' = client_counter m2" by (rule shrinks_fields(1))
  then show "client_counter m' = client_counter m + 1" by (simp add: admit_eq(4) [OF a])
  from find_available_room_nonempty [OF admit_eq(1) [OF a] py_or_default_nonempty [OF r]]
  show "sess_room_id s \<noteq> []" .
qed

section \<open>Closing a session\<close>

lemma dispatch_closed:
  assumes "dispatch m fails s d = Closed m' effs"
  shows "\<exists>pre. m' = fst (cleanup m fails s) \<and> effs = pre @ snd (cleanup m fails s) \<and>
           (\<forall>e \<in> set pre. recipient e = sess_client_id s)"
  using assms unfolding dispatch_def Let_def
  by (auto simp: close_eq split: if_splits py.splits option.splits prod.splits)

lemma handle_message_closed:
  assumes "handle_message m fails s rcv = Closed m' effs"
  shows "\<exists>names pre. m' = fst (cleanup (m\<lparr>client_names := names\<rparr>) fails s) \<and>
           effs = pre @ snd (cleanup (m\<lparr>client_names := names\<rparr>) fails s) \<and>
           (\<forall>e \<in> set pre. recipient e = sess_client_id s)"
proof (cases "\<exists>d. rcv = Frame (JObj d)")
  case True
  then obtain d where d: "rcv = Frame (JObj d)" by blast
  have "\<exists>names. update_peer_name m s d = m\<lparr>client_names := names\<rparr>"
    unfolding update_peer_name_def
    by (cases "has_key d ''peerName'' \<and> sess_client_id s \<noteq> 0") (auto intro: exI [of _ "client_names m"])
  then obtain names where n: "update_peer_name m s d = m\<lparr>client_names := names\<rparr>" by blast
  from assms d have "dispatch (update_peer_name m s d) fails s d = Closed m' effs"
    by (simp add: handle_message_def)
  from dispatch_closed [OF this] n show ?thesis by metis
next
  case False
  with assms have "close m fails s [] = Closed m' effs"
    by (auto simp: handle_message_def split: received.splits json.splits)
  then have "m' = fst (cleanup (m\<lparr>client_names := client_names m\<rparr>) fails s) \<and>
      effs = [] @ snd (cleanup (m\<lparr>client_names := client_names m\<rparr>) fails s) \<and>
      (\<forall>e \<in> set []. recipient e = sess_client_id s)"
    by (simp add: close_eq)
  then show ?thesis by blast
qed

lemma cleanup_eq:
  assumes "sess_client_id s \<noteq> 0" "sess_room_id s \<noteq> []"
  shows "cleanup m fails s =
     broadcast (disconnect m (sess_client_id s)) fails
       (peer_disconnected_message (sess_client_id s)
          (int (length (active_connections (disconnect m (sess_client_id s)))))
          (int (length (get_peers_in_room (disconnect m (sess_client_id s)) (sess_room_id s)))))
       (Some (sess_client_id s)) (Some (sess_room_id s))"
  using assms by (simp add: cleanup_def Let_def)

lemma count_after_delete:
  "distinct (map fst xs) \<Longrightarrow> (k, v) \<in> set xs \<Longrightarrow>
   length (filter (\<lambda>(c, r). r = v) (filter (\<lambda>p. fst p \<noteq> k) xs)) + 1
     = length (filter (\<lambda>(c, r). r = v) xs)"
proof (induction xs)
  case Nil
  then show ?case by simp
next
  case (Cons x xs)
  show ?case
  proof (cases "x = (k, v)")
    case True
    with Cons.prems(1) have "filter (\<lambda>p. fst p \<noteq> k) xs = xs"
      by (subst filter_id_conv) force
    with True show ?thesis by simp
  next
    case False
    with Cons.prems(2) have mem: "(k, v) \<in> set xs" by simp
    then have "k \<in> fst ` set xs" by force
    with Cons.prems(1) have "fst x \<noteq> k" by auto
    with Cons.IH [OF _ mem] Cons.prems(1) show ?thesis by (auto split: prod.splits)
  qed
qed

lemma peers_iff:
  "distinct (map fst (client_rooms m)) \<Longrightarrow>
   c \<in> set (get_peers_in_room m room) \<longleftrightarrow> map_of (client_rooms m) c = Some room"
  by (force simp: get_peers_in_room_def dest: map_of_SomeD)

lemma disconnect_rooms_lookup:
  "wf_manager m \<Longrightarrow>
   map_of (client_rooms (disconnect m k)) c = (if c = k then None else map_of (client_rooms m) c)"
proof (cases "has_key (active_connections m) k")
  case True
  then show ?thesis
    using map_of_filter_key [of "\<lambda>x. x \<noteq> k" "client_rooms m" c]
    by (simp add: disconnect_rooms)
next
  case False
  assume "wf_manager m"
  with False have "k \<notin> fst ` set (client_rooms m)"
    by (simp add: wf_manager_def has_key_iff)
  then have "map_of (client_rooms m) k = None" by (simp add: map_of_eq_None_iff)
  with False show ?thesis by (simp add: disconnect_def)
qed

lemma disconnect_active_lookup:
  "map_of (active_connections (disconnect m k)) c = (if c = k then None else map_of (active_connections m) c)"
  using map_of_filter_key [of "\<lambda>x. x \<noteq> k" "active_connections m" c]
  by (simp add: disconnect_active)

lemma cleanup_properties:
  assumes wf: "wf_manager m" and cid: "sess_client_id s \<noteq> 0" and room: "sess_room_id s \<noteq> []"
  shows "\<not> has_key (active_connections (fst (cleanup m fails s))) (sess_client_id s)"
    and "sess_client_id s \<notin> fst ` set (client_rooms (fst (cleanup m fails s)))"
    and "\<forall>c \<in> set (get_peers_in_room m (sess_room_id s)). c \<noteq> sess_client_id s \<longrightarrow>
           (\<exists>ws. map_of (active_connections m) c = Some ws \<and>
              send_json fails ws c
               (peer_disconnected_message (sess_client_id s)
                 (int (length (active_connections (disconnect m (sess_client_id s)))))
                 (int (length (get_peers_in_room (disconnect m (sess_client_id s)) (sess_room_id s)))))
              \<in> set (snd (cleanup m fails s)))"
    and "\<forall>e \<in> set (snd (cleanup m fails s)).
           payload e = peer_disconnected_message (sess_client_id s)
                 (int (length (active_connections (disconnect m (sess_client_id s)))))
                 (int (length (get_peers_in_room (disconnect m (sess_client_id s)) (sess_room_id s)))) \<and>
           recipient e \<noteq> sess_client_id s \<and>
           recipient e \<in> set (get_peers_in_room m (sess_room_id s))"
    and "sess_client_id s \<in> set (get_peers_in_room m (sess_room_id s)) \<longrightarrow>
           int (length (get_peers_in_room (disconnect m (sess_client_id s)) (sess_room_id s)))
             = int (length (get_peers_in_room m (sess_room_id s))) - 1"
proof -
  let ?c = "sess_client_id s" and ?r = "sess_room_id s"
  let ?m1 = "disconnect m ?c"
  let ?msg = "peer_disconnected_message ?c (int (length (active_connections ?m1)))
                 (int (length (get_peers_in_room ?m1 ?r)))"
  let ?tgt = "is_target ?m1 (Some ?c) (Some ?r)"
  let ?dis = "map fst (filter (\<lambda>p. ?tgt p \<and> fails (snd p)) (active_connections ?m1))"
  have wf1: "wf_manager ?m1" using wf by (rule wf_disconnect)
  have d: "distinct (map fst (client_rooms m))" and da: "distinct (map fst (active_connections m))"
    and keys: "fst ` set (client_rooms m) = fst ` set (active_connections m)"
    using wf by (simp_all add: wf_manager_def)
  have cl: "cleanup m fails s = broadcast ?m1 fails ?msg (Some ?c) (Some ?r)"
    by (rule cleanup_eq [OF cid room])
  have m': "fst (cleanup m fails s) = foldl disconnect ?m1 ?dis"
    and effs: "snd (cleanup m fails s) =
        map (\<lambda>p. send_json fails (snd p) (fst p) ?msg) (filter ?tgt (active_connections ?m1))"
    by (simp_all add: cl broadcast_eq)
  have gone_a: "map_of (active_connections ?m1) ?c = None"
    by (simp add: disconnect_active_lookup)
  have gone_r: "map_of (client_rooms ?m1) ?c = None"
    by (simp add: disconnect_rooms_lookup [OF wf])
  show "\<not> has_key (active_connections (fst (cleanup m fails s))) ?c"
    unfolding m' has_key_def using gone_a
    by (simp only: foldl_disconnect_active_lookup) simp
  have "shrinks ?m1 (fst (cleanup m fails s))"
    unfolding m' shrinks_def by blast
  from shrinks_fields(2) [OF this] gone_r
  show "?c \<notin> fst ` set (client_rooms (fst (cleanup m fails s)))"
    by (auto simp: map_of_eq_None_iff)
  have tgt: "?tgt (c, ws) \<longleftrightarrow> c \<noteq> ?c \<and> map_of (client_rooms m) c = Some ?r" for c ws
    by (auto simp: is_target_def disconnect_rooms_lookup [OF wf])
  have act1: "(c, ws) \<in> set (active_connections ?m1) \<longleftrightarrow> c \<noteq> ?c \<and> (c, ws) \<in> set (active_connections m)" for c ws
    by (auto simp: disconnect_active)
  show "\<forall>c \<in> set (get_peers_in_room m ?r). c \<noteq> ?c \<longrightarrow>
           (\<exists>ws. map_of (active_connections m) c = Some ws \<and>
              send_json fails ws c ?msg \<in> set (snd (cleanup m fails s)))"
  proof (intro ballI impI)
    fix c assume c: "c \<in> set (get_peers_in_room m ?r)" and ne: "c \<noteq> ?c"
    from c have rm: "map_of (client_rooms m) c = Some ?r" by (simp add: peers_iff [OF d])
    then have "c \<in> fst ` set (client_rooms m)" by (force dest: map_of_SomeD)
    with keys have "c \<in> fst ` set (active_connections m)" by simp
    then obtain ws where ws: "map_of (active_connections m) c = Some ws"
      by (metis has_key_def has_key_iff not_Some_eq)
    then have "(c, ws) \<in> set (active_connections m)" by (rule map_of_SomeD)
    with ne rm have "(c, ws) \<in> set (filter ?tgt (active_connections ?m1))"
      by (simp add: tgt act1)
    then have "send_json fails ws c ?msg \<in> set (snd (cleanup m fails s))"
      unfolding effs by force
    with ws show "\<exists>ws. map_of (active_connections m) c = Some ws \<and>
              send_json fails ws c ?msg \<in> set (snd (cleanup m fails s))" by blast
  qed
  show "\<forall>e \<in> set (snd (cleanup m fails s)).
           payload e = ?msg \<and> recipient e \<noteq> ?c \<and> recipient e \<in> set (get_peers_in_room m ?r)"
  proof
    fix e assume "e \<in> set (snd (cleanup m fails s))"
    then obtain c ws where e: "e = send_json fails ws c ?msg"
      and p: "(c, ws) \<in> set (active_connections ?m1)" "?tgt (c, ws)"
      unfolding effs by auto
    from p(2) have "c \<noteq> ?c" "c \<in> set (get_peers_in_room m ?r)"
      by (simp_all add: tgt peers_iff [OF d])
    with e show "payload e = ?msg \<and> recipient e \<noteq> ?c \<and> recipient e \<in> set (get_peers_in_room m ?r)"
      by (simp add: send_json_def)
  qed
  show "?c \<in> set (get_peers_in_room m ?r) \<longrightarrow>
           int (length (get_peers_in_room ?m1 ?r)) = int (length (get_peers_in_room m ?r)) - 1"
  proof
    assume c: "?c \<in> set (get_peers_in_room m ?r)"
    then have mem: "(?c, ?r) \<in> set (client_rooms m)"
      by (auto simp: get_peers_in_room_def)
    then have "?c \<in> fst ` set (active_connections m)" using keys by force
    then have "has_key (active_connections m) ?c" by (simp add: has_key_iff)
    then have "client_rooms ?m1 = filter (\<lambda>p. fst p \<noteq> ?c) (client_rooms m)"
      by (simp add: disconnect_rooms)
    with count_after_delete [OF d mem]
    have "length (get_peers_in_room ?m1 ?r) + 1 = length (get_peers_in_room m ?r)"
      by (simp add: get_peers_in_room_def)
    then show "int (length (get_peers_in_room ?m1 ?r)) = int (length (get_peers_in_room m ?r)) - 1"
      by linarith
  qed
qed

section \<open>A closed session leaves the registry for good\<close>

lemma disconnect_rename:
  "active_connections (disconnect (m\<lparr>client_names := names\<rparr>) c) = active_connections (disconnect m c)"
  "get_peers_in_room (disconnect (m\<lparr>client_names := names\<rparr>) c) room = get_peers_in_room (disconnect m c) room"
  by (simp_all add: disconnect_active disconnect_rooms get_peers_in_room_def)

lemma cleanup_deletes_records:
  assumes "has_key (active_connections m) (sess_client_id s)" and "sess_client_id s \<noteq> 0"
  shows "map_of (client_names (fst (cleanup m fails s))) (sess_client_id s) = None"
    and "map_of (client_ips (fst (cleanup m fails s))) (sess_client_id s) = None"
proof -
  let ?c = "sess_client_id s"
  let ?m1 = "disconnect m ?c"
  from assms(1) have n1: "map_of (client_names ?m1) ?c = None"
    and i1: "map_of (client_ips ?m1) ?c = None"
    by (simp_all add: disconnect_def delete_conv)
  have "shrinks ?m1 (fst (cleanup m fails s))"
  proof (cases "sess_room_id s \<noteq> []")
    case True
    from cleanup_eq [OF assms(2) True, of m fails] show ?thesis
      by (simp add: broadcast_eq shrinks_def) blast
  next
    case False
    with assms(2) show ?thesis by (simp add: cleanup_def Let_def)
  qed
  then obtain cs where cs: "fst (cleanup m fails s) = foldl disconnect ?m1 cs"
    unfolding shrinks_def by blast
  show "map_of (client_names (fst (cleanup m fails s))) ?c = None"
    unfolding cs using n1 by (simp add: foldl_disconnect_names_at)
  show "map_of (client_ips (fst (cleanup m fails s))) ?c = None"
    unfolding cs using i1 by (simp add: foldl_disconnect_ips_at)
qed

text \<open>
  What holds of claim C6 in every run. Take a client that completed the handshake on a
  registry reached from the empty one, let the server go on in any way, and let the client's
  loop end, by a disconnection or by an exception. Then the client's id has no connection
  and no room entry, and no registry reached afterwards lists the id in any room; when the
  client was still connected at that moment, its name and address entries are deleted too.
  Every other client of the former room is sent the \<open>peer-disconnected\<close> message, whose
  \<open>peersInRoom\<close> is the number of clients of the room after the removal (one less than
  before when the client was still registered there), and nothing else is sent to anyone
  but the closing client. A disconnection always ends the loop.
\<close>

theorem session_close_cleanup:
  assumes "evolves (init_manager C) m0"
    and "websocket_endpoint_join m0 fails0 ws ip rcv0 = Some (Active s m1 effs0)"
    and "evolves m1 m"
    and "handle_message m fails s rcv = Closed m' effs"
  shows "\<not> has_key (active_connections m') (sess_client_id s) \<and>
     (\<forall>m'' room. evolves m' m'' \<longrightarrow> sess_client_id s \<notin> set (get_peers_in_room m'' room)) \<and>
     (\<forall>c \<in> set (get_peers_in_room m (sess_room_id s)). c \<noteq> sess_client_id s \<longrightarrow>
        Sent c (peer_disconnected_message (sess_client_id s)
                 (int (length (active_connections (disconnect m (sess_client_id s)))))
                 (int (length (get_peers_in_room (disconnect m (sess_client_id s)) (sess_room_id s)))))
          \<in> set effs \<or>
        SendError c (peer_disconnected_message (sess_client_id s)
                 (int (length (active_connections (disconnect m (sess_client_id s)))))
                 (int (length (get_peers_in_room (disconnect m (sess_client_id s)) (sess_room_id s)))))
          \<in> set effs) \<and>
     (\<forall>e \<in> set effs. recipient e \<noteq> sess_client_id s \<longrightarrow>
        payload e = peer_disconnected_message (sess_client_id s)
                 (int (length (active_connections (disconnect m (sess_client_id s)))))
                 (int (length (get_peers_in_room (disconnect m (sess_client_id s)) (sess_room_id s)))) \<and>
        recipient e \<in> set (get_peers_in_room m (sess_room_id s))) \<and>
     (sess_client_id s \<in> set (get_peers_in_room m (sess_room_id s)) \<longrightarrow>
        int (length (get_peers_in_room (disconnect m (sess_client_id s)) (sess_room_id s)))
          = int (length (get_peers_in_room m (sess_room_id s))) - 1) \<and>
     (has_key (active_connections m) (sess_client_id s) \<longrightarrow>
        map_of (client_names m') (sess_client_id s) = None \<and>
        map_of (client_ips m') (sess_client_id s) = None) \<and>
     (\<exists>m2 effs2. handle_message m fails s Disconnected = Closed m2 effs2)"
proof -
  let ?c = "sess_client_id s" and ?r = "sess_room_id s"
  let ?msg = "peer_disconnected_message ?c (int (length (active_connections (disconnect m ?c))))
                 (int (length (get_peers_in_room (disconnect m ?c) ?r)))"
  have wf0: "wf_manager m0" using assms(1) wf_init by (rule evolves_wf)
  have ev1: "evolves (init_manager C) m1"
    by (rule evolves_join [OF assms(1) assms(2)]) simp
  then have wf1: "wf_manager m1" using wf_init by (rule evolves_wf)
  have wfm: "wf_manager m" using assms(3) wf1 by (rule evolves_wf)
  from wf0 have "0 \<le> client_counter m0" by (simp add: wf_manager_def)
  with join_session [OF assms(2)] have cid: "?c \<noteq> 0" and le1: "?c \<le> client_counter m1"
    and room: "?r \<noteq> []" by simp_all
  have le: "?c \<le> client_counter m" using assms(3) le1 by (rule evolves_counter)
  from handle_message_closed [OF assms(4)] obtain names pre where
    m': "m' = fst (cleanup (m\<lparr>client_names := names\<rparr>) fails s)"
    and effs: "effs = pre @ snd (cleanup (m\<lparr>client_names := names\<rparr>) fails s)"
    and pre: "\<forall>e \<in> set pre. recipient e = ?c"
    by blast
  let ?mr = "m\<lparr>client_names := names\<rparr>"
  have wfr: "wf_manager ?mr" using wfm by (rule wf_rename)
  note props = cleanup_properties [OF wfr cid room, unfolded disconnect_rename peers_rename]
  have gone_a: "\<not> has_key (active_connections m') ?c"
    unfolding m' by (rule props(1))
  have gone_r: "?c \<notin> fst ` set (client_rooms m')"
    unfolding m' by (rule props(2))
  have "shrinks ?mr m'" unfolding m' by (rule shrinks_cleanup)
  then have "client_counter m' = client_counter ?mr" by (rule shrinks_fields(1))
  with le have le': "?c \<le> client_counter m'" by simp
  have never: "\<forall>m'' room. evolves m' m'' \<longrightarrow> ?c \<notin> set (get_peers_in_room m'' room)"
  proof (intro allI impI)
    fix m'' room assume "evolves m' m''"
    from evolves_gone [OF this gone_r le'] peers_subset_keys [of m'' room]
    show "?c \<notin> set (get_peers_in_room m'' room)" by blast
  qed
  have members: "\<forall>c \<in> set (get_peers_in_room m ?r). c \<noteq> ?c \<longrightarrow>
        Sent c ?msg \<in> set effs \<or> SendError c ?msg \<in> set effs"
  proof (intro ballI impI)
    fix c assume "c \<in> set (get_peers_in_room m ?r)" "c \<noteq> ?c"
    with props(3) [of fails] obtain w where "send_json fails w c ?msg \<in> set (snd (cleanup ?mr fails s))"
      by auto
    then have "send_json fails w c ?msg \<in> set effs" by (simp add: effs)
    then show "Sent c ?msg \<in> set effs \<or> SendError c ?msg \<in> set effs"
      by (cases "fails w") (simp_all add: send_json_def)
  qed
  have only: "\<forall>e \<in> set effs. recipient e \<noteq> ?c \<longrightarrow>
        payload e = ?msg \<and> recipient e \<in> set (get_peers_in_room m ?r)"
  proof (intro ballI impI)
    fix e assume "e \<in> set effs" "recipient e \<noteq> ?c"
    with pre have "e \<in> set (snd (cleanup ?mr fails s))" by (auto simp: effs)
    with props(4) [of fails] show "payload e = ?msg \<and> recipient e \<in> set (get_peers_in_room m ?r)"
      by blast
  qed
  have "handle_message m fails s Disconnected = Closed (fst (cleanup m fails s)) (snd (cleanup m fails s))"
    by (simp add: handle_message_def close_eq)
  then have closes: "\<exists>m2 effs2. handle_message m fails s Disconnected = Closed m2 effs2"
    by blast
  have records: "has_key (active_connections m) ?c \<longrightarrow>
        map_of (client_names m') ?c = None \<and> map_of (client_ips m') ?c = None"
  proof
    assume "has_key (active_connections m) ?c"
    then have k: "has_key (active_connections ?mr) ?c" by simp
    from cleanup_deletes_records [OF k cid, of fails]
    show "map_of (client_names m') ?c = None \<and> map_of (client_ips m') ?c = None"
      unfolding m' by simp
  qed
  from gone_a never members only props(5) records closes show ?thesis by blast
qed

theorem session_close_cleanup_witness:
  "evolves (init_manager 2)
     \<lparr>active_connections = [(1, 10)], client_names = [(1, JStr ''A'')],
      client_rooms = [(1, ''lobby'')], client_ips = [(1, ''ip1'')],
      client_counter = 1, max_peers_per_room = 2\<rparr> \<and>
   websocket_endpoint_join
     \<lparr>active_connections = [(1, 10)], client_names = [(1, JStr ''A'')],
      client_rooms = [(1, ''lobby'')], client_ips = [(1, ''ip1'')],
      client_counter = 1, max_peers_per_room = 2\<rparr>
     (\<lambda>w. False) 11 ''ip2'' (Frame (JObj [(''name'', JStr ''B''), (''roomId'', JStr ''lobby'')]))
   = Some (Active \<lparr>sess_client_id = 2, sess_room_id = ''lobby'', sess_websocket = 11\<rparr>
       \<lparr>active_connections = [(1, 10), (2, 11)], client_names = [(1, JStr ''A''), (2, JStr ''B'')],
        client_rooms = [(1, ''lobby''), (2, ''lobby'')], client_ips = [(1, ''ip1''), (2, ''ip2'')],
        client_counter = 2, max_peers_per_room = 2\<rparr>
       [Sent 2 (welcome_message 2 2 1 ''lobby''),
        Sent 1 (peer_connected_message 2 (JStr ''B'') 2 2)]) \<and>
   handle_message
     \<lparr>active_connections = [(1, 10), (2, 11)], client_names = [(1, JStr ''A''), (2, JStr ''B'')],
      client_rooms = [(1, ''lobby''), (2, ''lobby'')], client_ips = [(1, ''ip1''), (2, ''ip2'')],
      client_counter = 2, max_peers_per_room = 2\<rparr>
     (\<lambda>w. False) \<lparr>sess_client_id = 2, sess_room_id = ''lobby'', sess_websocket = 11\<rparr> Disconnected
   = Closed
       \<lparr>active_connections = [(1, 10)], client_names = [(1, JStr ''A'')],
        client_rooms = [(1, ''lobby'')], client_ips = [(1, ''ip1'')],
        client_counter = 2, max_peers_per_room = 2\<rparr>
       [Sent 1 (peer_disconnected_message 2 1 1)] \<and>
   \<not> has_key (active_connections
       \<lparr>active_connections = [(1, 10)], client_names = [(1, JStr ''A'')],
        client_rooms = [(1, ''lobby'')], client_ips = [(1, ''ip1'')],
        client_counter = 2, max_peers_per_room = 2\<rparr>) 2 \<and>
   Sent 1 (peer_disconnected_message 2 1 1) \<in> set [Sent 1 (peer_disconnected_message 2 1 1)]"
proof -
  let ?M1 = "\<lparr>active_connections = [(1, 10)], client_names = [(1, JStr ''A'')],
      client_rooms = [(1, ''lobby'')], client_ips = [(1, ''ip1'')],
      client_counter = 1, max_peers_per_room = 2\<rparr>"
  let ?M2 = "\<lparr>active_connections = [(1, 10), (2, 11)], client_names = [(1, JStr ''A''), (2, JStr ''B'')],
        client_rooms = [(1, ''lobby''), (2, ''lobby'')], client_ips = [(1, ''ip1''), (2, ''ip2'')],
        client_counter = 2, max_peers_per_room = 2\<rparr>"
  let ?M3 = "\<lparr>active_connections = [(1, 10)], client_names = [(1, JStr ''A'')],
        client_rooms = [(1, ''lobby'')], client_ips = [(1, ''ip1'')],
        client_counter = 2, max_peers_per_room = 2\<rparr>"
  let ?sA = "\<lparr>sess_client_id = 1, sess_room_id = ''lobby'', sess_websocket = 10\<rparr>"
  let ?sB = "\<lparr>sess_client_id = 2, sess_room_id = ''lobby'', sess_websocket = 11\<rparr>"
  have jA: "websocket_endpoint_join (init_manager 2) (\<lambda>w. False) 10 ''ip1''
              (Frame (JObj [(''peerName'', JStr ''A''), (''roomId'', JStr ''lobby'')]))
            = Some (Active ?sA ?M1 [Sent 1 (welcome_message 1 1 0 ''lobby'')])"
    by code_simp
  have ev: "evolves (init_manager 2) ?M1"
    by (rule evolves_join [OF evolves_refl jA]) simp
  have jB: "websocket_endpoint_join ?M1 (\<lambda>w. False) 11 ''ip2''
              (Frame (JObj [(''name'', JStr ''B''), (''roomId'', JStr ''lobby'')]))
            = Some (Active ?sB ?M2 [Sent 2 (welcome_message 2 2 1 ''lobby''),
                                    Sent 1 (peer_connected_message 2 (JStr ''B'') 2 2)])"
    by code_simp
  have cl: "handle_message ?M2 (\<lambda>w. False) ?sB Disconnected
            = Closed ?M3 [Sent 1 (peer_disconnected_message 2 1 1)]"
    by code_simp
  note closed = session_close_cleanup [OF ev jB evolves_refl cl]
  from closed have "\<not> has_key (active_connections ?M3) (sess_client_id ?sB)" by blast
  then have gone: "\<not> has_key (active_connections ?M3) 2" by simp
  have mem: "1 \<in> set (get_peers_in_room ?M2 (sess_room_id ?sB))" "1 \<noteq> sess_client_id ?sB"
    by (simp_all add: get_peers_in_room_def)
  have msg: "peer_disconnected_message (sess_client_id ?sB)
      (int (length (active_connections (disconnect ?M2 (sess_client_id ?sB)))))
      (int (length (get_peers_in_room (disconnect ?M2 (sess_client_id ?sB)) (sess_room_id ?sB))))
      = peer_disconnected_message 2 1 1"
    by code_simp
  from closed mem have "Sent 1 (peer_disconnected_message (sess_client_id ?sB)
      (int (length (active_connections (disconnect ?M2 (sess_client_id ?sB)))))
      (int (length (get_peers_in_room (disconnect ?M2 (sess_client_id ?sB)) (sess_room_id ?sB)))))
        \<in> set [Sent 1 (peer_disconnected_message 2 1 1)] \<or>
     SendError 1 (peer_disconnected_message (sess_client_id ?sB)
      (int (length (active_connections (disconnect ?M2 (sess_client_id ?sB)))))
      (int (length (get_peers_in_room (disconnect ?M2 (sess_client_id ?sB)) (sess_room_id ?sB)))))
        \<in> set [Sent 1 (peer_disconnected_message 2 1 1)]"
    by blast
  then have told: "Sent 1 (peer_disconnected_message 2 1 1) \<in> set [Sent 1 (peer_disconnected_message 2 1 1)]"
    unfolding msg by simp
  from ev jB cl gone told show ?thesis by blast
qed

text \<open>
  Claim C6 at a client that a failed broadcast has removed before it closes. Clients 1 and 2
  are in the lobby. Client 1 sends a chat message and the send to client 2 raises, so the
  broadcast removes client 2 from the registry. The handler of client 2 is still in its
  loop: it receives a message with a \<open>peerName\<close> entry, which writes a name for client 2
  into \<open>client_names\<close>. Then client 2 disconnects: \<open>disconnect\<close> finds no connection for it
  and deletes nothing, so the registry keeps the name of client 2 from then on.
\<close>

theorem closed_client_name_remains:
  "evolves (init_manager 2)
     \<lparr>active_connections = [(1, 10)], client_names = [(1, JStr ''A'')],
      client_rooms = [(1, ''lobby'')], client_ips = [(1, ''ip1'')],
      client_counter = 1, max_peers_per_room = 2\<rparr> \<and>
   websocket_endpoint_join
     \<lparr>active_connections = [(1, 10)], client_names = [(1, JStr ''A'')],
      client_rooms = [(1, ''lobby'')], client_ips = [(1, ''ip1'')],
      client_counter = 1, max_peers_per_room = 2\<rparr>
     all_delivered 11 ''ip2'' (Frame (JObj [(''name'', JStr ''B''), (''roomId'', JStr ''lobby'')]))
   = Some (Active \<lparr>sess_client_id = 2, sess_room_id = ''lobby'', sess_websocket = 11\<rparr>
       \<lparr>active_connections = [(1, 10), (2, 11)], client_names = [(1, JStr ''A''), (2, JStr ''B'')],
        client_rooms = [(1, ''lobby''), (2, ''lobby'')], client_ips = [(1, ''ip1''), (2, ''ip2'')],
        client_counter = 2, max_peers_per_room = 2\<rparr>
       [Sent 2 (welcome_message 2 2 1 ''lobby''),
        Sent 1 (peer_connected_message 2 (JStr ''B'') 2 2)]) \<and>
   handle_message
     \<lparr>active_connections = [(1, 10), (2, 11)], client_names = [(1, JStr ''A''), (2, JStr ''B'')],
      client_rooms = [(1, ''lobby''), (2, ''lobby'')], client_ips = [(1, ''ip1''), (2, ''ip2'')],
      client_counter = 2, max_peers_per_room = 2\<rparr>
     (only_fails 11) \<lparr>sess_client_id = 1, sess_room_id = ''lobby'', sess_websocket = 10\<rparr>
     (Frame (JObj [(''type'', JStr ''chat''), (''text'', JStr ''hi'')]))
   = Active \<lparr>sess_client_id = 1, sess_room_id = ''lobby'', sess_websocket = 10\<rparr>
       \<lparr>active_connections = [(1, 10)], client_names = [(1, JStr ''A'')],
        client_rooms = [(1, ''lobby'')], client_ips = [(1, ''ip1'')],
        client_counter = 2, max_peers_per_room = 2\<rparr>
       [SendError 2 (chat_message [(''type'', JStr ''chat''), (''text'', JStr ''hi'')] 1)] \<and>
   handle_message
     \<lparr>active_connections = [(1, 10)], client_names = [(1, JStr ''A'')],
      client_rooms = [(1, ''lobby'')], client_ips = [(1, ''ip1'')],
      client_counter = 2, max_peers_per_room = 2\<rparr>
     all_delivered \<lparr>sess_client_id = 2, sess_room_id = ''lobby'', sess_websocket = 11\<rparr>
     (Frame (JObj [(''peerName'', JStr ''Bob'')]))
   = Active \<lparr>sess_client_id = 2, sess_room_id = ''lobby'', sess_websocket = 11\<rparr>
       \<lparr>active_connections = [(1, 10)], client_names = [(1, JStr ''A''), (2, JStr ''Bob'')],
        client_rooms = [(1, ''lobby'')], client_ips = [(1, ''ip1'')],
        client_counter = 2, max_peers_per_room = 2\<rparr> [] \<and>
   evolves
     \<lparr>active_connections = [(1, 10), (2, 11)], client_names = [(1, JStr ''A''), (2, JStr ''B'')],
      client_rooms = [(1, ''lobby''), (2, ''lobby'')], client_ips = [(1, ''ip1''), (2, ''ip2'')],
      client_counter = 2, max_peers_per_room = 2\<rparr>
     \<lparr>active_connections = [(1, 10)], client_names = [(1, JStr ''A''), (2, JStr ''Bob'')],
      client_rooms = [(1, ''lobby'')], client_ips = [(1, ''ip1'')],
      client_counter = 2, max_peers_per_room = 2\<rparr> \<and>
   handle_message
     \<lparr>active_connections = [(1, 10)], client_names = [(1, JStr ''A''), (2, JStr ''Bob'')],
      client_rooms = [(1, ''lobby'')], client_ips = [(1, ''ip1'')],
      client_counter = 2, max_peers_per_room = 2\<rparr>
     all_delivered \<lparr>sess_client_id = 2, sess_room_id = ''lobby'', sess_websocket = 11\<rparr> Disconnected
   = Closed
       \<lparr>active_connections = [(1, 10)], client_names = [(1, JStr ''A''), (2, JStr ''Bob'')],
        client_rooms = [(1, ''lobby'')], client_ips = [(1, ''ip1'')],
        client_counter = 2, max_peers_per_room = 2\<rparr>
       [Sent 1 (peer_disconnected_message 2 1 1)] \<and>
   map_of [(1::int, JStr ''A''), (2, JStr ''Bob'')] 2 = Some (JStr ''Bob'')"
proof -
  let ?M1 = "\<lparr>active_connections = [(1, 10)], client_names = [(1, JStr ''A'')],
      client_rooms = [(1, ''lobby'')], client_ips = [(1, ''ip1'')],
      client_counter = 1, max_peers_per_room = 2\<rparr>"
  let ?M2 = "\<lparr>active_connections = [(1, 10), (2, 11)], client_names = [(1, JStr ''A''), (2, JStr ''B'')],
        client_rooms = [(1, ''lobby''), (2, ''lobby'')], client_ips = [(1, ''ip1''), (2, ''ip2'')],
        client_counter = 2, max_peers_per_room = 2\<rparr>"
  let ?Ma = "\<lparr>active_connections = [(1, 10)], client_names = [(1, JStr ''A'')],
        client_rooms = [(1, ''lobby'')], client_ips = [(1, ''ip1'')],
        client_counter = 2, max_peers_per_room = 2\<rparr>"
  let ?Mb = "\<lparr>active_connections = [(1, 10)], client_names = [(1, JStr ''A''), (2, JStr ''Bob'')],
        client_rooms = [(1, ''lobby'')], client_ips = [(1, ''ip1'')],
        client_counter = 2, max_peers_per_room = 2\<rparr>"
  let ?s1 = "\<lparr>sess_client_id = 1, sess_room_id = ''lobby'', sess_websocket = 10\<rparr>"
  let ?s2 = "\<lparr>sess_client_id = 2, sess_room_id = ''lobby'', sess_websocket = 11\<rparr>"
  let ?chat = "Frame (JObj [(''type'', JStr ''chat''), (''text'', JStr ''hi'')])"
  let ?rename = "Frame (JObj [(''peerName'', JStr ''Bob'')])"
  have j1: "websocket_endpoint_join (init_manager 2) all_delivered 10 ''ip1''
              (Frame (JObj [(''peerName'', JStr ''A''), (''roomId'', JStr ''lobby'')]))
            = Some (Active ?s1 ?M1 [Sent 1 (welcome_message 1 1 0 ''lobby'')])"
    by code_simp
  have ev1: "evolves (init_manager 2) ?M1"
    by (rule evolves_join [OF evolves_refl j1]) simp
  have j2: "websocket_endpoint_join ?M1 all_delivered 11 ''ip2''
              (Frame (JObj [(''name'', JStr ''B''), (''roomId'', JStr ''lobby'')]))
            = Some (Active ?s2 ?M2 [Sent 2 (welcome_message 2 2 1 ''lobby''),
                                    Sent 1 (peer_connected_message 2 (JStr ''B'') 2 2)])"
    by code_simp
  have a: "handle_message ?M2 (only_fails 11) ?s1 ?chat
            = Active ?s1 ?Ma [SendError 2 (chat_message [(''type'', JStr ''chat''), (''text'', JStr ''hi'')] 1)]"
    by code_simp
  have b: "handle_message ?Ma all_delivered ?s2 ?rename = Active ?s2 ?Mb []"
    by code_simp
  have eva: "evolves ?M2 ?Ma"
    by (rule evolves_message [OF evolves_refl, of _ "only_fails 11" ?s1 ?chat]) (simp add: a)
  have evb: "evolves ?M2 ?Mb"
    by (rule evolves_message [OF eva, of all_delivered ?s2 ?rename]) (simp add: b)
  have c: "handle_message ?Mb all_delivered ?s2 Disconnected
            = Closed ?Mb [Sent 1 (peer_disconnected_message 2 1 1)]"
    by code_simp
  have d: "map_of [(1::int, JStr ''A''), (2, JStr ''Bob'')] 2 = Some (JStr ''Bob'')"
    by simp
  from ev1 j2 a b evb c d show ?thesis by blast
qed

section \<open>Renaming a peer\<close>

lemma disconnect_names_lookup:
  "c \<noteq> k \<Longrightarrow> map_of (client_names (disconnect m k)) c = map_of (client_names m) c"
  by (simp add: disconnect_def delete_conv)

lemma foldl_disconnect_names_lookup:
  "c \<notin> set cs \<Longrightarrow> map_of (client_names (foldl disconnect m cs)) c = map_of (client_names m) c"
  by (induction cs arbitrary: m) (auto simp: disconnect_names_lookup)

lemma broadcast_keeps_name:
  "map_of (client_names (fst (broadcast m fails msg (Some c) room))) c = map_of (client_names m) c"
proof -
  let ?dis = "map fst (filter (\<lambda>p. is_target m (Some c) room p \<and> fails (snd p)) (active_connections m))"
  have "c \<notin> set ?dis" by (auto simp: is_target_def)
  then show ?thesis by (simp add: broadcast_eq foldl_disconnect_names_lookup)
qed

lemma dispatch_active:
  assumes "dispatch m fails s d = Active s' m' effs"
  shows "s' = s \<and> (m' = m \<or> (\<exists>msg. m' = fst (broadcast m fails msg (Some (sess_client_id s)) (Some (sess_room_id s)))))"
  using assms unfolding dispatch_def Let_def
  by (auto simp: close_eq split: if_splits py.splits option.splits prod.splits) (metis fst_conv)+

text \<open>
  Claim C8, as the code has it. A message of the loop that is an object with a \<open>peerName\<close>
  entry makes the dispatch run on the registry in which the sender's name is that value,
  whatever the type of the message; when the handler stays active, the registry it leaves
  holds that name for the sender.
\<close>

theorem peer_name_update:
  assumes "map_of d ''peerName'' = Some v" and "sess_client_id s \<noteq> 0"
  shows "handle_message m fails s (Frame (JObj d)) =
           dispatch (m\<lparr>client_names := AList.update (sess_client_id s) v (client_names m)\<rparr>) fails s d \<and>
         (\<forall>s' m' effs. handle_message m fails s (Frame (JObj d)) = Active s' m' effs \<longrightarrow>
            map_of (client_names m') (sess_client_id s) = Some v)"
proof -
  let ?mr = "m\<lparr>client_names := AList.update (sess_client_id s) v (client_names m)\<rparr>"
  from assms have upd: "update_peer_name m s d = ?mr"
    by (simp add: update_peer_name_def has_key_def dict_get_def dict_get_default_def)
  then have eq: "handle_message m fails s (Frame (JObj d)) = dispatch ?mr fails s d"
    by (simp add: handle_message_def)
  have nm: "map_of (client_names ?mr) (sess_client_id s) = Some v"
    by (simp add: update_conv)
  have "map_of (client_names m') (sess_client_id s) = Some v"
    if "handle_message m fails s (Frame (JObj d)) = Active s' m' effs" for s' m' effs
  proof -
    from that eq have "dispatch ?mr fails s d = Active s' m' effs" by simp
    from dispatch_active [OF this] nm broadcast_keeps_name [of ?mr fails _ "sess_client_id s"]
    show ?thesis by auto
  qed
  with eq show ?thesis by blast
qed

theorem peer_name_update_witness:
  "map_of [(''type'', JStr ''mute-state''), (''peerName'', JStr ''Bob'')] ''peerName'' = Some (JStr ''Bob'') \<and>
   handle_message
     \<lparr>active_connections = [(1, 10), (2, 11)], client_names = [(1, JStr ''A''), (2, JStr ''B'')],
      client_rooms = [(1, ''lobby''), (2, ''lobby'')], client_ips = [(1, ''ip1''), (2, ''ip2'')],
      client_counter = 2, max_peers_per_room = 2\<rparr>
     all_delivered \<lparr>sess_client_id = 2, sess_room_id = ''lobby'', sess_websocket = 11\<rparr>
     (Frame (JObj [(''type'', JStr ''mute-state''), (''peerName'', JStr ''Bob'')]))
   = Active \<lparr>sess_client_id = 2, sess_room_id = ''lobby'', sess_websocket = 11\<rparr>
      \<lparr>active_connections = [(1, 10), (2, 11)], client_names = [(1, JStr ''A''), (2, JStr ''Bob'')],
       client_rooms = [(1, ''lobby''), (2, ''lobby'')], client_ips = [(1, ''ip1''), (2, ''ip2'')],
       client_counter = 2, max_peers_per_room = 2\<rparr>
      [Sent 1 (JObj [(''type'', JStr ''mute-state''), (''senderId'', JInt 2), (''isMuted'', JBool False)])] \<and>
   map_of (client_names
      \<lparr>active_connections = [(1, 10), (2, 11)], client_names = [(1, JStr ''A''), (2, JStr ''Bob'')],
       client_rooms = [(1, ''lobby''), (2, ''lobby'')], client_ips = [(1, ''ip1''), (2, ''ip2'')],
       client_counter = 2, max_peers_per_room = 2\<rparr>) 2 = Some (JStr ''Bob'')"
proof -
  let ?M = "\<lparr>active_connections = [(1, 10), (2, 11)], client_names = [(1, JStr ''A''), (2, JStr ''B'')],
      client_rooms = [(1, ''lobby''), (2, ''lobby'')], client_ips = [(1, ''ip1''), (2, ''ip2'')],
      client_counter = 2, max_peers_per_room = 2\<rparr>"
  let ?M' = "\<lparr>active_connections = [(1, 10), (2, 11)], client_names = [(1, JStr ''A''), (2, JStr ''Bob'')],
       client_rooms = [(1, ''lobby''), (2, ''lobby'')], client_ips = [(1, ''ip1''), (2, ''ip2'')],
       client_counter = 2, max_peers_per_room = 2\<rparr>"
  let ?s = "\<lparr>sess_client_id = 2, sess_room_id = ''lobby'', sess_websocket = 11\<rparr>"
  let ?d = "[(''type'', JStr ''mute-state''), (''peerName'', JStr ''Bob'')]"
  have h1: "map_of ?d ''peerName'' = Some (JStr ''Bob'')" by simp
  have h2: "sess_client_id ?s \<noteq> 0" by simp
  have run: "handle_message ?M all_delivered ?s (Frame (JObj ?d))
     = Active ?s ?M' [Sent 1 (JObj [(''type'', JStr ''mute-state''), (''senderId'', JInt 2), (''isMuted'', JBool False)])]"
    by code_simp
  from peer_name_update [OF h1 h2, of ?M all_delivered] run
  have "map_of (client_names ?M') (sess_client_id ?s) = Some (JStr ''Bob'')" by blast
  then have "map_of (client_names ?M') 2 = Some (JStr ''Bob'')" by simp
  with h1 run show ?thesis by blast
qed

text \<open>
  The claim C8 as stated fails: a \<open>displayName\<close> entry is not read by the loop. Client 2,
  stored as \<open>B\<close>, sends a chat message carrying \<open>displayName\<close>; the registry is unchanged.
\<close>

theorem display_name_not_updated_counterexample:
  "handle_message
     \<lparr>active_connections = [(1, 10), (2, 11)], client_names = [(1, JStr ''A''), (2, JStr ''B'')],
      client_rooms = [(1, ''lobby''), (2, ''lobby'')], client_ips = [(1, ''ip1''), (2, ''ip2'')],
      client_counter = 2, max_peers_per_room = 2\<rparr>
     all_delivered \<lparr>sess_client_id = 2, sess_room_id = ''lobby'', sess_websocket = 11\<rparr>
     (Frame (JObj [(''type'', JStr ''chat''), (''text'', JStr ''hi''), (''displayName'', JStr ''Bob'')]))
   = Active \<lparr>sess_client_id = 2, sess_room_id = ''lobby'', sess_websocket = 11\<rparr>
      \<lparr>active_connections = [(1, 10), (2, 11)], client_names = [(1, JStr ''A''), (2, JStr ''B'')],
       client_rooms = [(1, ''lobby''), (2, ''lobby'')], client_ips = [(1, ''ip1''), (2, ''ip2'')],
       client_counter = 2, max_peers_per_room = 2\<rparr>
      [Sent 1 (JObj [(''type'', JStr ''chat''), (''text'', JStr ''hi''), (''senderId'', JInt 2),
                     (''senderName'', JStr ''Client 2''), (''timestamp'', JNull)])] \<and>
   map_of [(1, JStr ''A''), (2, JStr ''B'')] (2::int) \<noteq> Some (JStr ''Bob'')"
  by code_simp

section \<open>Malformed frames and the routing of signaling messages\<close>

text \<open>
  Claim C9, as the code has it. In the loop, a message that is an object and whose type is
  absent or none of the types the loop knows sends nothing and leaves the handler active,
  on the registry changed at most by the \<open>peerName\<close> entry. A frame that is not an object,
  or not JSON at all, raises: in the loop the session is closed through the cleanup, and as
  a first frame it ends the handler before anything is registered.
\<close>

theorem malformed_message_handling:
  "(dict_get_default d ''type'' (JStr ''unknown'') \<notin> set known_types \<longrightarrow>
      handle_message m fails s (Frame (JObj d)) = Active s (update_peer_name m s d) []) \<and>
   (\<not> is_object frame \<longrightarrow>
      handle_message m fails s (Frame frame)
        = Closed (fst (cleanup m fails s)) (snd (cleanup m fails s)) \<and>
      websocket_endpoint_join m fails ws ip (Frame frame) = Some (Closed m [])) \<and>
   handle_message m fails s BadFrame = Closed (fst (cleanup m fails s)) (snd (cleanup m fails s)) \<and>
   websocket_endpoint_join m fails ws ip BadFrame = Some (Closed m [])"
proof (intro conjI impI)
  assume "dict_get_default d ''type'' (JStr ''unknown'') \<notin> set known_types"
  then show "handle_message m fails s (Frame (JObj d)) = Active s (update_peer_name m s d) []"
    by (simp add: handle_message_def dispatch_def known_types_def Let_def)
next
  assume "\<not> is_object frame"
  then show "handle_message m fails s (Frame frame)
        = Closed (fst (cleanup m fails s)) (snd (cleanup m fails s))"
    by (cases frame) (simp_all add: handle_message_def close_eq)
next
  assume "\<not> is_object frame"
  then show "websocket_endpoint_join m fails ws ip (Frame frame) = Some (Closed m [])"
    by (cases frame) (simp_all add: websocket_endpoint_join_def)
next
  show "handle_message m fails s BadFrame = Closed (fst (cleanup m fails s)) (snd (cleanup m fails s))"
    by (simp add: handle_message_def close_eq)
next
  show "websocket_endpoint_join m fails ws ip BadFrame = Some (Closed m [])"
    by (simp add: websocket_endpoint_join_def)
qed

theorem malformed_message_handling_witness:
  "dict_get_default [(''kind'', JStr ''offer'')] ''type'' (JStr ''unknown'') \<notin> set known_types \<and>
   handle_message
     \<lparr>active_connections = [(1, 10), (2, 11)], client_names = [(1, JStr ''A''), (2, JStr ''B'')],
      client_rooms = [(1, ''lobby''), (2, ''lobby'')], client_ips = [(1, ''ip1''), (2, ''ip2'')],
      client_counter = 2, max_peers_per_room = 2\<rparr>
     all_delivered \<lparr>sess_client_id = 2, sess_room_id = ''lobby'', sess_websocket = 11\<rparr>
     (Frame (JObj [(''kind'', JStr ''offer'')]))
   = Active \<lparr>sess_client_id = 2, sess_room_id = ''lobby'', sess_websocket = 11\<rparr>
      \<lparr>active_connections = [(1, 10), (2, 11)], client_names = [(1, JStr ''A''), (2, JStr ''B'')],
       client_rooms = [(1, ''lobby''), (2, ''lobby'')], client_ips = [(1, ''ip1''), (2, ''ip2'')],
       client_counter = 2, max_peers_per_room = 2\<rparr> [] \<and>
   \<not> is_object (JArr [JInt 1]) \<and>
   websocket_endpoint_join (init_manager 2) all_delivered 10 ''ip1'' (Frame (JArr [JInt 1]))
     = Some (Closed (init_manager 2) [])"
proof -
  let ?M = "\<lparr>active_connections = [(1, 10), (2, 11)], client_names = [(1, JStr ''A''), (2, JStr ''B'')],
      client_rooms = [(1, ''lobby''), (2, ''lobby'')], client_ips = [(1, ''ip1''), (2, ''ip2'')],
      client_counter = 2, max_peers_per_room = 2\<rparr>"
  let ?s = "\<lparr>sess_client_id = 2, sess_room_id = ''lobby'', sess_websocket = 11\<rparr>"
  let ?d = "[(''kind'', JStr ''offer'')]"
  have h1: "dict_get_default ?d ''type'' (JStr ''unknown'') \<notin> set known_types" by code_simp
  have h2: "\<not> is_object (JArr [JInt 1])" by simp
  have u: "update_peer_name ?M ?s ?d = ?M" by code_simp
  from malformed_message_handling [of ?d ?M all_delivered ?s] h1
  have "handle_message ?M all_delivered ?s (Frame (JObj ?d)) = Active ?s (update_peer_name ?M ?s ?d) []"
    by blast
  with u have a: "handle_message ?M all_delivered ?s (Frame (JObj ?d)) = Active ?s ?M []" by simp
  from malformed_message_handling [of ?d "init_manager 2" all_delivered ?s "JArr [JInt 1]" 10 "''ip1''"] h2
  have b: "websocket_endpoint_join (init_manager 2) all_delivered 10 ''ip1'' (Frame (JArr [JInt 1]))
     = Some (Closed (init_manager 2) [])" by blast
  from h1 a h2 b show ?thesis by blast
qed

text \<open>
  The claim C9 as stated fails: in the loop, a frame that is not an object ends the session.
  Client 2 sends the JSON array \<open>[1]\<close>: it is removed from the registry and client 1 is
  told that it has disconnected.
\<close>

theorem malformed_frame_closes_session_counterexample:
  "handle_message
     \<lparr>active_connections = [(1, 10), (2, 11)], client_names = [(1, JStr ''A''), (2, JStr ''B'')],
      client_rooms = [(1, ''lobby''), (2, ''lobby'')], client_ips = [(1, ''ip1''), (2, ''ip2'')],
      client_counter = 2, max_peers_per_room = 2\<rparr>
     all_delivered \<lparr>sess_client_id = 2, sess_room_id = ''lobby'', sess_websocket = 11\<rparr>
     (Frame (JArr [JInt 1]))
   = Closed
      \<lparr>active_connections = [(1, 10)], client_names = [(1, JStr ''A'')],
       client_rooms = [(1, ''lobby'')], client_ips = [(1, ''ip1'')],
       client_counter = 2, max_peers_per_room = 2\<rparr>
      [Sent 1 (JObj [(''type'', JStr ''peer-disconnected''), (''clientId'', JInt 2),
                     (''totalClients'', JInt 1), (''peersInRoom'', JInt 1)])]"
  by code_simp

text \<open>
  Claim C3 at a target of \<open>0\<close>. Client 2 sends an offer with \<open>targetId\<close> 0 in the loop. No
  client has the id 0, and yet the offer is sent to client 1, the other client of the room:
  the test \<open>if target_id:\<close> takes 0 for an absent target.
\<close>

theorem target_zero_is_broadcast:
  "handle_message
     \<lparr>active_connections = [(1, 10), (2, 11)], client_names = [(1, JStr ''A''), (2, JStr ''B'')],
      client_rooms = [(1, ''lobby''), (2, ''lobby'')], client_ips = [(1, ''ip1''), (2, ''ip2'')],
      client_counter = 2, max_peers_per_room = 2\<rparr>
     all_delivered \<lparr>sess_client_id = 2, sess_room_id = ''lobby'', sess_websocket = 11\<rparr>
     (Frame (JObj [(''type'', JStr ''offer''), (''targetId'', JInt 0)]))
   = Active \<lparr>sess_client_id = 2, sess_room_id = ''lobby'', sess_websocket = 11\<rparr>
      \<lparr>active_connections = [(1, 10), (2, 11)], client_names = [(1, JStr ''A''), (2, JStr ''B'')],
       client_rooms = [(1, ''lobby''), (2, ''lobby'')], client_ips = [(1, ''ip1''), (2, ''ip2'')],
       client_counter = 2, max_peers_per_room = 2\<rparr>
      [Sent 1 (JObj [(''type'', JStr ''offer''), (''targetId'', JInt 0), (''senderId'', JInt 2)])] \<and>
   \<not> has_key [(1, 10::nat), (2, 11)] (0::int) \<and>
   route_first_message
     \<lparr>active_connections = [(1, 10), (2, 11)], client_names = [(1, JStr ''A''), (2, JStr ''B'')],
      client_rooms = [(1, ''lobby''), (2, ''lobby'')], client_ips = [(1, ''ip1''), (2, ''ip2'')],
      client_counter = 2, max_peers_per_room = 2\<rparr>
     all_delivered \<lparr>sess_client_id = 2, sess_room_id = ''lobby'', sess_websocket = 11\<rparr>
     [(''type'', JStr ''offer''), (''targetId'', JInt 0)] = Ok []"
  by code_simp

text \<open>
  Claim C5 at a first message without target. Client 1 is in the lobby; a second client
  joins the lobby with an offer that has no \<open>targetId\<close>. The handshake sends the welcome
  and the \<open>peer-connected\<close> notification and nothing else: the offer is not forwarded.
  The same message in the loop is sent to client 1.
\<close>

theorem first_offer_without_target_not_forwarded:
  "websocket_endpoint_join
     \<lparr>active_connections = [(1, 10)], client_names = [(1, JStr ''A'')],
      client_rooms = [(1, ''lobby'')], client_ips = [(1, ''ip1'')],
      client_counter = 1, max_peers_per_room = 2\<rparr>
     all_delivered 11 ''ip2''
     (Frame (JObj [(''type'', JStr ''offer''), (''roomId'', JStr ''lobby''), (''sdp'', JStr ''v=0'')]))
   = Some (Active \<lparr>sess_client_id = 2, sess_room_id = ''lobby'', sess_websocket = 11\<rparr>
       \<lparr>active_connections = [(1, 10), (2, 11)], client_names = [(1, JStr ''A'')],
        client_rooms = [(1, ''lobby''), (2, ''lobby'')], client_ips = [(1, ''ip1''), (2, ''ip2'')],
        client_counter = 2, max_peers_per_room = 2\<rparr>
       [Sent 2 (welcome_message 2 2 1 ''lobby''),
        Sent 1 (peer_connected_message 2 JNull 2 2)]) \<and>
   handle_message
     \<lparr>active_connections = [(1, 10), (2, 11)], client_names = [(1, JStr ''A'')],
      client_rooms = [(1, ''lobby''), (2, ''lobby'')], client_ips = [(1, ''ip1''), (2, ''ip2'')],
      client_counter = 2, max_peers_per_room = 2\<rparr>
     all_delivered \<lparr>sess_client_id = 2, sess_room_id = ''lobby'', sess_websocket = 11\<rparr>
     (Frame (JObj [(''type'', JStr ''offer''), (''roomId'', JStr ''lobby''), (''sdp'', JStr ''v=0'')]))
   = Active \<lparr>sess_client_id = 2, sess_room_id = ''lobby'', sess_websocket = 11\<rparr>
       \<lparr>active_connections = [(1, 10), (2, 11)], client_names = [(1, JStr ''A'')],
        client_rooms = [(1, ''lobby''), (2, ''lobby'')], client_ips = [(1, ''ip1''), (2, ''ip2'')],
        client_counter = 2, max_peers_per_room = 2\<rparr>
       [Sent 1 (JObj [(''type'', JStr ''offer''), (''roomId'', JStr ''lobby''), (''sdp'', JStr ''v=0''),
                      (''senderId'', JInt 2)])]"
  by code_simp


text \<open>
  For a target other than 0 the loop routes as claim C3 says: one send to the target when
  it is registered in the sender's room, nothing otherwise.
\<close>

lemma unicast_routing:
  assumes "dict_get_default d ''type'' (JStr ''unknown'') \<in> set signaling_types"
    and "dict_get d ''targetId'' = JInt T" and "T \<noteq> 0"
  shows "handle_message m fails s (Frame (JObj d)) =
           Active s (update_peer_name m s d)
             (case map_of (active_connections m) T of
                Some w \<Rightarrow> if map_of (client_rooms m) T = Some (sess_room_id s)
                          then [send_json fails w T (with_sender d (sess_client_id s))] else []
              | None \<Rightarrow> [])"
proof -
  have a: "active_connections (update_peer_name m s d) = active_connections m"
    and r: "client_rooms (update_peer_name m s d) = client_rooms m"
    by (simp_all add: update_peer_name_def)
  show ?thesis
    using assms
    by (simp add: handle_message_def dispatch_def Let_def coerce_target_def a r
          send_personal_message_def has_key_def split: option.splits)
qed

text \<open>A first message without target is never forwarded, whatever the registry.\<close>

lemma first_message_without_target:
  "dict_get first_data ''targetId'' = JNull \<Longrightarrow> route_first_message m fails s first_data = Ok []"
  by (simp add: route_first_message_def Let_def)

end
